theory Spec2Isabelle
  imports Main
begin

section \<open>Document storage of alfred: lookup, creation and forking\<close>

text \<open>
  A shallow embedding of \<^verbatim>\<open>routerlicious/src/alfred/storage.ts\<close>. The functions of
  that file are asynchronous and work on three collaborators they receive as arguments:
  the git manager of a tenant, a collection of the Mongo database and a message producer.
  The model threads one \<open>world\<close> through every call, holding the state of the three, and
  every rejected promise or thrown exception is an \<open>Inl\<close> result.
\<close>

subsection \<open>JavaScript values\<close>

text \<open>
  What \<^verbatim>\<open>JSON.parse\<close> returns, and what a property of an object read from the store
  or built by an object literal holds. \<open>JUndefined\<close> is the value of a property that
  the object does not have.
\<close>

datatype jsval =
    JUndefined
  | JNull
  | JBool bool
  | JNum int
  | JStr string
  | JArr "jsval list"
  | JObj "(string \<times> jsval) list"

subsection \<open>Calls to the collaborators, and errors\<close>

text \<open>
  Every asynchronous request that the file makes to a collaborator, with the arguments
  that identify it. The world records the requests in the order they are issued, and
  names the requests that the collaborator rejects (a transport failure, a timeout).
\<close>

datatype call =
    GetTenant string
  | GetRef string
  | GetContent string string
  | UpsertRef string string
  | GetDatabase
  | FindOne string string
  | FindOrCreate string string
  | InsertOne string string
  | Update string string
  | Send string

datatype error =
    Rejected call
  | NotFound
  | DuplicateKey
  | SyntaxError
  | TypeError

subsection \<open>Data model\<close>

text \<open>An entry of a document's \<^verbatim>\<open>forks\<close>: the literal \<^verbatim>\<open>{ documentId: name, tenantId }\<close>.\<close>

record fork =
  fork_documentId :: string
  fork_tenantId :: string

text \<open>The \<^verbatim>\<open>parent\<close> object of a fork's record (lines 159 to 164).\<close>

record parent_ref =
  parent_documentId :: string
  parent_minimumSequenceNumber :: jsval
  parent_sequenceNumber :: jsval
  parent_tenantId :: string

text \<open>
  A record of the documents collection (\<^verbatim>\<open>core.IDocument\<close>), with the properties of
  the two object literals of the file (lines 152 to 167 and 204 to 214). \<^verbatim>\<open>parent: null\<close>
  is \<open>None\<close>. The collection is also read as \<^verbatim>\<open>collection<any>\<close>, and \<^verbatim>\<open>getForks\<close>
  guards against a record without \<^verbatim>\<open>forks\<close>, so \<open>doc_forks\<close> is optional. Neither literal
  has a property \<^verbatim>\<open>minimumSequenceNumber\<close>; the field \<open>doc_minimumSequenceNumber\<close> is what
  reading that property of the record yields, which is \<open>JUndefined\<close> for both literals.
\<close>

record document =
  doc_branchMap :: jsval
  doc_clients :: jsval
  doc_createTime :: int
  doc_documentId :: string
  doc_forks :: "fork list option"
  doc_logOffset :: jsval
  doc_minimumSequenceNumber :: jsval
  doc_parent :: "parent_ref option"
  doc_sequenceNumber :: jsval
  doc_tenantId :: string

text \<open>\<^verbatim>\<open>core.IForkOperation\<close>, the \<^verbatim>\<open>contents\<close> literal of lines 230 to 235.\<close>

record fork_operation =
  contents_documentId :: string
  contents_minSequenceNumber :: jsval
  contents_sequenceNumber :: jsval
  contents_tenantId :: string

text \<open>The \<^verbatim>\<open>operation\<close> literal of lines 240 to 246.\<close>

record operation_message =
  op_clientSequenceNumber :: int
  op_contents :: fork_operation
  op_referenceSequenceNumber :: int
  op_traces :: "jsval list"
  op_type :: string

text \<open>\<^verbatim>\<open>core.IRawOperationMessage\<close>, the literal of lines 237 to 251.\<close>

record raw_operation_message =
  msg_clientId :: jsval
  msg_documentId :: string
  msg_operation :: operation_message
  msg_tenantId :: string
  msg_timestamp :: int
  msg_type :: string
  msg_user :: jsval

text \<open>The result of \<^verbatim>\<open>findOrCreate\<close>: \<^verbatim>\<open>{ existing, value }\<close>.\<close>

record found_or_created =
  res_existing :: bool
  res_value :: document

subsection \<open>The world\<close>

text \<open>
  The git store of one tenant: \<open>refs\<close> maps a ref name to the sha of the commit it
  points at (\<^verbatim>\<open>head.object.sha\<close>), \<open>blobs\<close> maps a commit sha and a path to the base64
  content stored there.
\<close>

record git_store =
  refs :: "string \<rightharpoonup> string"
  blobs :: "string \<times> string \<rightharpoonup> string"

text \<open>
  \<open>tenants\<close>: the git store behind each tenant known to the tenant manager.
  \<open>database\<close>: the collections of the Mongo database by name, each a map from the
  key \<open>(documentId, tenantId)\<close> to the record stored under it.
  \<open>sent\<close>: the messages given to the producer, each with its partition key.
  \<open>rejecting\<close>: the requests that the collaborators reject.
  \<open>calls\<close>: the requests issued so far, oldest first.
\<close>

record world =
  tenants :: "string \<rightharpoonup> git_store"
  database :: "string \<Rightarrow> (string \<times> string \<rightharpoonup> document)"
  sent :: "(string \<times> string) list"
  rejecting :: "call set"
  calls :: "call list"

text \<open>
  What the file takes from its platform: \<open>parse_base64_json c\<close> is
  \<^verbatim>\<open>JSON.parse(Buffer.from(c, "base64").toString("utf-8"))\<close>, \<open>None\<close> when
  \<^verbatim>\<open>JSON.parse\<close> throws; \<open>stringify\<close> is \<^verbatim>\<open>JSON.stringify\<close> on an integration message;
  \<open>moniker_choose\<close> is the name \<^verbatim>\<open>moniker.choose()\<close> returns to this request;
  \<open>now_createTime\<close> and \<open>now_timestamp\<close> are what \<^verbatim>\<open>Date.now()\<close> returns when a
  record literal and the integration message are built.
\<close>

record platform =
  parse_base64_json :: "string \<Rightarrow> jsval option"
  stringify :: "raw_operation_message \<Rightarrow> string"
  moniker_choose :: string
  now_createTime :: int
  now_timestamp :: int

subsection \<open>Asynchronous computations\<close>

text \<open>
  An asynchronous function is a function from the world to the world it leaves and
  either the error its promise is rejected with or the value it resolves to.
  \<open>await m f\<close> is \<^verbatim>\<open>const x = await m; f(x)\<close>: a rejection of \<open>m\<close> is thrown and the rest
  does not run.
\<close>

type_synonym 'a async = "world \<Rightarrow> world \<times> (error + 'a)"

definition resolve :: "'a \<Rightarrow> 'a async" where
  "resolve x w = (w, Inr x)"

definition reject :: "error \<Rightarrow> 'a async" where
  "reject e w = (w, Inl e)"

definition await :: "'a async \<Rightarrow> ('a \<Rightarrow> 'b async) \<Rightarrow> 'b async" where
  "await m f w = (case m w of (w1, Inl e) \<Rightarrow> (w1, Inl e) | (w1, Inr x) \<Rightarrow> f x w1)"

text \<open>
  \<^verbatim>\<open>const aP = m1; const bP = m2; await Promise.all([aP, bP])\<close>: both requests are
  issued before either is awaited, so the second one reaches its collaborator whatever
  becomes of the first. The joint promise is rejected when one of the two is; when both
  are, the model reports the error of the first.
\<close>

definition await_all :: "'a async \<Rightarrow> 'b async \<Rightarrow> ('a \<times> 'b) async" where
  "await_all m1 m2 w =
     (case m1 w of (w1, r1) \<Rightarrow>
      case m2 w1 of (w2, r2) \<Rightarrow>
        (w2, case r1 of Inl e \<Rightarrow> Inl e
             | Inr x \<Rightarrow> (case r2 of Inl e \<Rightarrow> Inl e | Inr y \<Rightarrow> Inr (x, y))))"

text \<open>Issuing a request: it is recorded, and rejected when the collaborator rejects it.\<close>

definition request :: "call \<Rightarrow> unit async" where
  "request c w =
     (w\<lparr>calls := calls w @ [c]\<rparr>,
      if c \<in> rejecting w then Inl (Rejected c) else Inr ())"

subsection \<open>The collaborators\<close>

text \<open>
  Modelled from the spec: \<^verbatim>\<open>tenantManager.getTenant\<close> (of \<^verbatim>\<open>core.ITenantManager\<close>, outside
  this file), "tenant-to-storage-credential resolution". It resolves to the tenant, whose
  \<^verbatim>\<open>gitManager\<close> the model names by the tenant's id, and is rejected for a tenant that the
  manager does not know.
\<close>

definition getTenant :: "string \<Rightarrow> string async" where
  "getTenant tenantId =
     await (request (GetTenant tenantId)) (\<lambda>_ w.
       case tenants w tenantId of
         None \<Rightarrow> (w, Inl NotFound)
       | Some g \<Rightarrow> (w, Inr tenantId))"

text \<open>
  Modelled from the spec: \<^verbatim>\<open>gitManager.getRef\<close>, the VersionStore contract
  \<^verbatim>\<open>getHeadRef(documentId) \<rightarrow> ref|null\<close>. The ref is given by the sha of \<^verbatim>\<open>head.object.sha\<close>,
  \<^verbatim>\<open>null\<close> is \<open>None\<close>.
\<close>

definition getRef :: "string \<Rightarrow> string \<Rightarrow> string option async" where
  "getRef gitManager ref =
     await (request (GetRef ref)) (\<lambda>_ w.
       case tenants w gitManager of
         None \<Rightarrow> (w, Inl NotFound)
       | Some g \<Rightarrow> (w, Inr (refs g ref)))"

text \<open>
  Modelled from the spec: \<^verbatim>\<open>gitManager.getContent\<close>, the VersionStore contract
  \<^verbatim>\<open>getBlobContent(commitSha, path) \<rightarrow> bytes\<close>. It resolves to the \<^verbatim>\<open>content\<close> of the blob
  and is rejected when the commit has no blob at the path.
\<close>

definition getContent :: "string \<Rightarrow> string \<Rightarrow> string \<Rightarrow> string async" where
  "getContent gitManager sha path =
     await (request (GetContent sha path)) (\<lambda>_ w.
       case tenants w gitManager of
         None \<Rightarrow> (w, Inl NotFound)
       | Some g \<Rightarrow>
           (case blobs g (sha, path) of
              None \<Rightarrow> (w, Inl NotFound)
            | Some content \<Rightarrow> (w, Inr content)))"

text \<open>
  Modelled from the spec: \<^verbatim>\<open>gitManager.upsertRef\<close>, the VersionStore contract
  \<^verbatim>\<open>createOrUpdateRef(name, targetSha) \<rightarrow> ref\<close>. Afterwards the ref \<open>name\<close> points at \<open>sha\<close>.
\<close>

definition upsertRef :: "string \<Rightarrow> string \<Rightarrow> string \<Rightarrow> unit async" where
  "upsertRef gitManager name sha =
     await (request (UpsertRef name sha)) (\<lambda>_ w.
       case tenants w gitManager of
         None \<Rightarrow> (w, Inl NotFound)
       | Some g \<Rightarrow>
           (w\<lparr>tenants := (tenants w)(gitManager \<mapsto> g\<lparr>refs := (refs g)(name \<mapsto> sha)\<rparr>)\<rparr>,
            Inr ()))"

text \<open>
  Modelled from the spec: \<^verbatim>\<open>mongoManager.getDatabase\<close> (of \<^verbatim>\<open>utils.MongoManager\<close>, outside
  this file). \<^verbatim>\<open>db.collection(name)\<close>, which follows it everywhere, is synchronous and
  names a collection of \<open>database\<close>.
\<close>

definition getDatabase :: "unit async" where
  "getDatabase = request GetDatabase"

text \<open>
  Modelled from the spec: \<^verbatim>\<open>collection.findOne\<close>, the DocumentRecord store contract
  \<^verbatim>\<open>findOne(tenantId, documentId) \<rightarrow> record|null\<close>; \<^verbatim>\<open>null\<close> is \<open>None\<close>.
\<close>

definition findOne :: "string \<Rightarrow> string \<Rightarrow> string \<Rightarrow> document option async" where
  "findOne collection documentId tenantId =
     await (request (FindOne documentId tenantId)) (\<lambda>_ w.
       (w, Inr (database w collection (documentId, tenantId))))"

text \<open>
  Modelled from the spec: \<^verbatim>\<open>collection.findOrCreate\<close>, the DocumentRecord store contract
  \<^verbatim>\<open>findOrCreate(key, defaultRecord) \<rightarrow> {existing, value}\<close>: it "atomically returns the
  existing record if present, otherwise creates one" from the default record.
\<close>

definition findOrCreate :: "string \<Rightarrow> string \<Rightarrow> string \<Rightarrow> document \<Rightarrow> found_or_created async" where
  "findOrCreate collection documentId tenantId val =
     await (request (FindOrCreate documentId tenantId)) (\<lambda>_ w.
       case database w collection (documentId, tenantId) of
         Some d \<Rightarrow> (w, Inr \<lparr>res_existing = True, res_value = d\<rparr>)
       | None \<Rightarrow>
           (w\<lparr>database := (database w)
                 (collection := (database w collection)((documentId, tenantId) \<mapsto> val))\<rparr>,
            Inr \<lparr>res_existing = False, res_value = val\<rparr>))"

text \<open>
  Modelled from the spec: \<^verbatim>\<open>collection.insertOne\<close>, the DocumentRecord store contract
  \<^verbatim>\<open>insertOne(record) \<rightarrow> ok|duplicate-key-error\<close>, with \<open>(documentId, tenantId)\<close> the
  primary key.
\<close>

definition insertOne :: "string \<Rightarrow> document \<Rightarrow> unit async" where
  "insertOne collection d =
     await (request (InsertOne (doc_documentId d) (doc_tenantId d))) (\<lambda>_ w.
       case database w collection (doc_documentId d, doc_tenantId d) of
         Some _ \<Rightarrow> (w, Inl DuplicateKey)
       | None \<Rightarrow>
           (w\<lparr>database := (database w)
                 (collection := (database w collection)((doc_documentId d, doc_tenantId d) \<mapsto> d))\<rparr>,
            Inr ()))"

text \<open>
  Modelled from the spec: \<^verbatim>\<open>collection.update\<close>, the DocumentRecord store contract
  \<^verbatim>\<open>update(key, fieldSets, fieldAppends) \<rightarrow> ok\<close>, as the file calls it: with \<^verbatim>\<open>null\<close> for
  the fields to set and \<^verbatim>\<open>{ forks: entry }\<close> for the fields to append to. The record with
  the key has \<open>entry\<close> appended to its \<^verbatim>\<open>forks\<close> ("a genuine append"); the spec names
  no error of \<^verbatim>\<open>update\<close>, and a key with no record leaves the collection as it is.
\<close>

definition append_fork :: "fork \<Rightarrow> document \<Rightarrow> document" where
  "append_fork entry d =
     d\<lparr>doc_forks := Some ((case doc_forks d of None \<Rightarrow> [] | Some fs \<Rightarrow> fs) @ [entry])\<rparr>"

definition update :: "string \<Rightarrow> string \<Rightarrow> string \<Rightarrow> fork \<Rightarrow> unit async" where
  "update collection documentId tenantId entry =
     await (request (Update documentId tenantId)) (\<lambda>_ w.
       (w\<lparr>database := (database w)
             (collection := (database w collection)
                ((documentId, tenantId) :=
                   map_option (append_fork entry)
                     (database w collection (documentId, tenantId))))\<rparr>,
        Inr ()))"

text \<open>
  Modelled from the spec: \<^verbatim>\<open>producer.send\<close> (of \<^verbatim>\<open>utils.IProducer\<close>, outside this file),
  the IntegrationAnnouncer contract \<^verbatim>\<open>send(partitionKey, envelope) \<rightarrow> ack|error\<close>, with the
  arguments in the order the file passes them: the message, then the key.
\<close>

definition send :: "string \<Rightarrow> string \<Rightarrow> unit async" where
  "send message key =
     await (request (Send key)) (\<lambda>_ w. (w\<lparr>sent := sent w @ [(message, key)]\<rparr>, Inr ()))"

subsection \<open>Constants\<close>

definition StartingSequenceNumber :: int where
  "StartingSequenceNumber = 0"

text \<open>
  Modelled from the spec: the values of \<^verbatim>\<open>core.RawOperationType\<close> and \<^verbatim>\<open>api.Fork\<close>, which
  are declared outside this file; the wire envelope of the spec has \<^verbatim>\<open>type: "RawOperation"\<close>
  and \<^verbatim>\<open>operation.type: "Fork"\<close>.
\<close>

definition RawOperationType :: string where
  "RawOperationType = ''RawOperation''"

definition Fork :: string where
  "Fork = ''Fork''"

subsection \<open>Reading a property\<close>

text \<open>
  \<^verbatim>\<open>v.k\<close> for a value \<open>v\<close> that \<^verbatim>\<open>JSON.parse\<close> returned and a key \<open>k\<close> that no prototype
  defines: a \<^verbatim>\<open>TypeError\<close> on \<^verbatim>\<open>null\<close> and \<^verbatim>\<open>undefined\<close>, the value of the property on an
  object that has it, \<^verbatim>\<open>undefined\<close> otherwise.
\<close>

fun get_property :: "jsval \<Rightarrow> string \<Rightarrow> error + jsval" where
  "get_property JUndefined k = Inl TypeError"
| "get_property JNull k = Inl TypeError"
| "get_property (JObj kvs) k = Inr (case map_of kvs k of None \<Rightarrow> JUndefined | Some v \<Rightarrow> v)"
| "get_property v k = Inr JUndefined"

subsection \<open>The functions of the file\<close>

text \<open>\<^verbatim>\<open>getDocument\<close>, lines 13 to 22.\<close>

definition getDocument :: "string \<Rightarrow> string \<Rightarrow> string \<Rightarrow> document option async" where
  "getDocument documentsCollectionName tenantId documentId =
     await getDatabase (\<lambda>db.
     findOne documentsCollectionName documentId tenantId)"

text \<open>
  \<^verbatim>\<open>getForks\<close>, lines 99 to 110. \<^verbatim>\<open>document.forks\<close> throws a \<^verbatim>\<open>TypeError\<close> when \<^verbatim>\<open>findOne\<close>
  resolved to \<^verbatim>\<open>null\<close>; \<^verbatim>\<open>|| []\<close> replaces a missing \<^verbatim>\<open>forks\<close> (an array, also an empty one,
  is truthy).
\<close>

definition getForks :: "string \<Rightarrow> string \<Rightarrow> string \<Rightarrow> fork list async" where
  "getForks documentsCollectionName tenantId documentId =
     await getDatabase (\<lambda>db.
     await (findOne documentsCollectionName documentId tenantId) (\<lambda>document.
       case document of
         None \<Rightarrow> reject TypeError
       | Some d \<Rightarrow> resolve (case doc_forks d of None \<Rightarrow> [] | Some fs \<Rightarrow> fs)))"

text \<open>\<^verbatim>\<open>sendIntegrateStream\<close>, lines 222 to 253.\<close>

definition sendIntegrateStream ::
    "platform \<Rightarrow> string \<Rightarrow> string \<Rightarrow> jsval \<Rightarrow> jsval \<Rightarrow> string \<Rightarrow> unit async" where
  "sendIntegrateStream P tenantId id' sequenceNumber minSequenceNumber name =
     (let contents =
            \<lparr>contents_documentId = name,
             contents_minSequenceNumber = minSequenceNumber,
             contents_sequenceNumber = sequenceNumber,
             contents_tenantId = tenantId\<rparr>;
          integrateMessage =
            \<lparr>msg_clientId = JNull,
             msg_documentId = id',
             msg_operation =
               \<lparr>op_clientSequenceNumber = - 1,
                op_contents = contents,
                op_referenceSequenceNumber = - 1,
                op_traces = [],
                op_type = Fork\<rparr>,
             msg_tenantId = tenantId,
             msg_timestamp = now_timestamp P,
             msg_type = RawOperationType,
             msg_user = JNull\<rparr>
      in send (stringify P integrateMessage) id')"

text \<open>
  \<^verbatim>\<open>createFork\<close>, lines 128 to 144: the sequence numbers of the fork, as the pair
  \<open>(minimumSequenceNumber, sequenceNumber)\<close>. With a head, the content request and the
  ref request are both issued and then awaited together (lines 136 to 138), and the two
  numbers are the properties of the parsed attributes as they are.
\<close>

definition createFork_sequencing ::
    "platform \<Rightarrow> string \<Rightarrow> string \<Rightarrow> string option \<Rightarrow> (jsval \<times> jsval) async" where
  "createFork_sequencing P gitManager name head =
     (case head of
        None \<Rightarrow> resolve (JNum StartingSequenceNumber, JNum StartingSequenceNumber)
      | Some sha \<Rightarrow>
          await (await_all (getContent gitManager sha ''.attributes'')
                           (upsertRef gitManager name sha))
            (\<lambda>(attributesContent, branch).
               case parse_base64_json P attributesContent of
                 None \<Rightarrow> reject SyntaxError
               | Some attributes \<Rightarrow>
                   (case get_property attributes ''minimumSequenceNumber'' of
                      Inl e \<Rightarrow> reject e
                    | Inr minimumSequenceNumber \<Rightarrow>
                        (case get_property attributes ''sequenceNumber'' of
                           Inl e \<Rightarrow> reject e
                         | Inr sequenceNumber \<Rightarrow>
                             resolve (minimumSequenceNumber, sequenceNumber)))))"

text \<open>
  \<^verbatim>\<open>createFork\<close>, lines 150 to 177: the two writes to the collection. \<^verbatim>\<open>insertOne\<close> is
  issued and not yet awaited; \<^verbatim>\<open>update\<close> is issued and awaited at once (line 168), so
  that its rejection is the one thrown; line 177 then awaits the insertion.
\<close>

definition createFork_records ::
    "platform \<Rightarrow> string \<Rightarrow> string \<Rightarrow> string \<Rightarrow> string \<Rightarrow> jsval \<Rightarrow> jsval \<Rightarrow> unit async" where
  "createFork_records P documentsCollectionName tenantId id' name
       minimumSequenceNumber sequenceNumber w =
     (case insertOne documentsCollectionName
             \<lparr>doc_branchMap = JUndefined,
              doc_clients = JUndefined,
              doc_createTime = now_createTime P,
              doc_documentId = name,
              doc_forks = Some [],
              doc_logOffset = JUndefined,
              doc_minimumSequenceNumber = JUndefined,
              doc_parent =
                Some \<lparr>parent_documentId = id',
                      parent_minimumSequenceNumber = minimumSequenceNumber,
                      parent_sequenceNumber = sequenceNumber,
                      parent_tenantId = tenantId\<rparr>,
              doc_sequenceNumber = sequenceNumber,
              doc_tenantId = tenantId\<rparr> w of
        (w1, insertFork) \<Rightarrow>
          (case update documentsCollectionName id' tenantId
                  \<lparr>fork_documentId = name, fork_tenantId = tenantId\<rparr> w1 of
             (w2, Inl e) \<Rightarrow> (w2, Inl e)
           | (w2, Inr updateParent) \<Rightarrow> (w2, insertFork)))"

text \<open>
  \<^verbatim>\<open>createFork\<close>, lines 112 to 189, around the two blocks above. \<^verbatim>\<open>winston.info\<close>
  writes to the log only and is left out.
\<close>

definition createFork :: "platform \<Rightarrow> string \<Rightarrow> string \<Rightarrow> string \<Rightarrow> string async" where
  "createFork P documentsCollectionName tenantId id' =
     (let name = moniker_choose P in
      await (getTenant tenantId) (\<lambda>gitManager.
      await (getRef gitManager id') (\<lambda>head.
      await (createFork_sequencing P gitManager name head)
        (\<lambda>(minimumSequenceNumber, sequenceNumber).
      await getDatabase (\<lambda>db.
      await (createFork_records P documentsCollectionName tenantId id' name
               minimumSequenceNumber sequenceNumber) (\<lambda>_.
      await (sendIntegrateStream P tenantId id' sequenceNumber minimumSequenceNumber name)
        (\<lambda>_.
      resolve name)))))))"

text \<open>\<^verbatim>\<open>getOrCreateObject\<close>, lines 191 to 217.\<close>

definition getOrCreateObject ::
    "platform \<Rightarrow> string \<Rightarrow> string \<Rightarrow> string \<Rightarrow> found_or_created async" where
  "getOrCreateObject P documentsCollectionName tenantId documentId =
     await getDatabase (\<lambda>db.
     findOrCreate documentsCollectionName documentId tenantId
       \<lparr>doc_branchMap = JUndefined,
        doc_clients = JUndefined,
        doc_createTime = now_createTime P,
        doc_documentId = documentId,
        doc_forks = Some [],
        doc_logOffset = JUndefined,
        doc_minimumSequenceNumber = JUndefined,
        doc_parent = None,
        doc_sequenceNumber = JNum StartingSequenceNumber,
        doc_tenantId = tenantId\<rparr>)"

text \<open>\<^verbatim>\<open>getOrCreateDocument\<close>, lines 24 to 37.\<close>

definition getOrCreateDocument ::
    "platform \<Rightarrow> string \<Rightarrow> string \<Rightarrow> string \<Rightarrow> found_or_created async" where
  "getOrCreateDocument P documentsCollectionName tenantId documentId =
     getOrCreateObject P documentsCollectionName tenantId documentId"

subsection \<open>Example worlds\<close>

text \<open>
  Tenant \<open>t1\<close> with the document \<open>doc1\<close>: its head ref points at the commit \<open>sha1\<close>, whose
  \<^verbatim>\<open>.attributes\<close> blob has the content \<open>c\<close>, and the collection \<open>documents\<close> holds its
  record. The example platform parses the content \<open>attrs\<close> to the attributes with the
  sequence number 42 and the minimum sequence number 10, and nothing else; its \<open>stringify\<close>
  keeps the two types of a message and the \<^verbatim>\<open>documentId\<close> of its contents.
\<close>

definition example_attributes :: jsval where
  "example_attributes =
     JObj [(''sequenceNumber'', JNum 42), (''minimumSequenceNumber'', JNum 10)]"

definition example_platform :: platform where
  "example_platform =
     \<lparr>parse_base64_json = (\<lambda>c. if c = ''attrs'' then Some example_attributes else None),
      stringify =
        (\<lambda>m. msg_type m @ ''/'' @ op_type (msg_operation m) @ ''/'' @
             contents_documentId (op_contents (msg_operation m))),
      moniker_choose = ''fork1'', now_createTime = 1000, now_timestamp = 1001\<rparr>"

definition example_parent :: document where
  "example_parent =
     \<lparr>doc_branchMap = JUndefined, doc_clients = JUndefined, doc_createTime = 1,
      doc_documentId = ''doc1'', doc_forks = Some [], doc_logOffset = JUndefined,
      doc_minimumSequenceNumber = JUndefined, doc_parent = None,
      doc_sequenceNumber = JNum 0, doc_tenantId = ''t1''\<rparr>"

definition example_git :: "string \<Rightarrow> git_store" where
  "example_git c =
     \<lparr>refs = [''doc1'' \<mapsto> ''sha1''], blobs = [(''sha1'', ''.attributes'') \<mapsto> c]\<rparr>"

definition example_world :: "string \<Rightarrow> world" where
  "example_world c =
     \<lparr>tenants = [''t1'' \<mapsto> example_git c],
      database = (\<lambda>_. Map.empty)(''documents'' := [(''doc1'', ''t1'') \<mapsto> example_parent]),
      sent = [], rejecting = {}, calls = []\<rparr>"

text \<open>
  The same tenant with a parent that has no history yet (no ref, no blob), and with a
  parent that has history but no record in the collection.
\<close>

definition example_new_world :: world where
  "example_new_world =
     \<lparr>tenants = [''t1'' \<mapsto> \<lparr>refs = Map.empty, blobs = Map.empty\<rparr>],
      database = (\<lambda>_. Map.empty)(''documents'' := [(''doc1'', ''t1'') \<mapsto> example_parent]),
      sent = [], rejecting = {}, calls = []\<rparr>"

definition example_unrecorded_world :: world where
  "example_unrecorded_world =
     \<lparr>tenants = [''t1'' \<mapsto> example_git ''attrs''],
      database = (\<lambda>_. Map.empty),
      sent = [], rejecting = {}, calls = []\<rparr>"

section \<open>The outcome of a request that succeeds\<close>

subsection \<open>Results of the single requests\<close>

lemma await_Inr:
  "await m f w = (w', Inr y) \<longleftrightarrow> (\<exists>w1 x. m w = (w1, Inr x) \<and> f x w1 = (w', Inr y))"
  by (auto simp: await_def split: prod.splits sum.splits)

lemma await_all_Inr:
  "await_all m1 m2 w = (w', Inr p) \<longleftrightarrow>
     (\<exists>w1. m1 w = (w1, Inr (fst p)) \<and> m2 w1 = (w', Inr (snd p)))"
  by (cases p) (auto simp: await_all_def split: prod.splits sum.splits)

lemma request_Inr:
  "request c w = (w', Inr u) \<longleftrightarrow> c \<notin> rejecting w \<and> w' = w\<lparr>calls := calls w @ [c]\<rparr>"
  by (auto simp: request_def)

lemma getTenant_Inr:
  "getTenant t w = (w', Inr gm) \<longleftrightarrow>
     GetTenant t \<notin> rejecting w \<and> tenants w t \<noteq> None \<and> gm = t \<and>
     w' = w\<lparr>calls := calls w @ [GetTenant t]\<rparr>"
  by (auto simp: getTenant_def await_Inr request_Inr split: option.splits)

lemma getRef_Inr:
  "getRef gm i w = (w', Inr head) \<longleftrightarrow>
     GetRef i \<notin> rejecting w \<and> (\<exists>g. tenants w gm = Some g \<and> head = refs g i) \<and>
     w' = w\<lparr>calls := calls w @ [GetRef i]\<rparr>"
  by (auto simp: getRef_def await_Inr request_Inr split: option.splits)

lemma getContent_Inr:
  "getContent gm sha path w = (w', Inr c) \<longleftrightarrow>
     GetContent sha path \<notin> rejecting w \<and>
     (\<exists>g. tenants w gm = Some g \<and> blobs g (sha, path) = Some c) \<and>
     w' = w\<lparr>calls := calls w @ [GetContent sha path]\<rparr>"
  by (auto simp: getContent_def await_Inr request_Inr split: option.splits)

lemma upsertRef_Inr:
  "upsertRef gm name sha w = (w', Inr u) \<longleftrightarrow>
     UpsertRef name sha \<notin> rejecting w \<and>
     (\<exists>g. tenants w gm = Some g \<and>
        w' = w\<lparr>calls := calls w @ [UpsertRef name sha],
               tenants := (tenants w)(gm \<mapsto> g\<lparr>refs := (refs g)(name \<mapsto> sha)\<rparr>)\<rparr>)"
  by (auto simp: upsertRef_def await_Inr request_Inr split: option.splits)

lemma getDatabase_Inr:
  "getDatabase w = (w', Inr u) \<longleftrightarrow>
     GetDatabase \<notin> rejecting w \<and> w' = w\<lparr>calls := calls w @ [GetDatabase]\<rparr>"
  by (simp add: getDatabase_def request_Inr)

lemma findOne_Inr:
  "findOne coll d t w = (w', Inr r) \<longleftrightarrow>
     FindOne d t \<notin> rejecting w \<and> r = database w coll (d, t) \<and>
     w' = w\<lparr>calls := calls w @ [FindOne d t]\<rparr>"
  by (auto simp: findOne_def await_Inr request_Inr)

lemma insertOne_Inr:
  "insertOne coll d w = (w', Inr u) \<longleftrightarrow>
     InsertOne (doc_documentId d) (doc_tenantId d) \<notin> rejecting w \<and>
     database w coll (doc_documentId d, doc_tenantId d) = None \<and>
     w' = w\<lparr>calls := calls w @ [InsertOne (doc_documentId d) (doc_tenantId d)],
            database := (database w)
              (coll := (database w coll)((doc_documentId d, doc_tenantId d) \<mapsto> d))\<rparr>"
  by (auto simp: insertOne_def await_Inr request_Inr split: option.splits)

lemma update_Inr:
  "update coll i t entry w = (w', Inr u) \<longleftrightarrow>
     Update i t \<notin> rejecting w \<and>
     w' = w\<lparr>calls := calls w @ [Update i t],
            database := (database w)
              (coll := (database w coll)
                 ((i, t) := map_option (append_fork entry) (database w coll (i, t))))\<rparr>"
  by (auto simp: update_def await_Inr request_Inr)

lemma send_Inr:
  "send m k w = (w', Inr u) \<longleftrightarrow>
     Send k \<notin> rejecting w \<and>
     w' = w\<lparr>calls := calls w @ [Send k], sent := sent w @ [(m, k)]\<rparr>"
  by (auto simp: send_def await_Inr request_Inr)

subsection \<open>Results of the blocks of createFork\<close>

lemma sendIntegrateStream_Inr:
  "sendIntegrateStream P t i sn msn name w = (w', Inr u) \<longleftrightarrow>
     Send i \<notin> rejecting w \<and>
     w' = w\<lparr>calls := calls w @ [Send i],
            sent := sent w @
              [(stringify P
                  \<lparr>msg_clientId = JNull, msg_documentId = i,
                   msg_operation =
                     \<lparr>op_clientSequenceNumber = - 1,
                      op_contents =
                        \<lparr>contents_documentId = name, contents_minSequenceNumber = msn,
                         contents_sequenceNumber = sn, contents_tenantId = t\<rparr>,
                      op_referenceSequenceNumber = - 1, op_traces = [], op_type = Fork\<rparr>,
                   msg_tenantId = t, msg_timestamp = now_timestamp P,
                   msg_type = RawOperationType, msg_user = JNull\<rparr>, i)]\<rparr>"
  by (simp add: sendIntegrateStream_def Let_def send_Inr)

lemma decode_Inr:
  "(case parse_base64_json P c of
      None \<Rightarrow> reject SyntaxError
    | Some attributes \<Rightarrow>
        (case get_property attributes ''minimumSequenceNumber'' of
           Inl e \<Rightarrow> reject e
         | Inr minimumSequenceNumber \<Rightarrow>
             (case get_property attributes ''sequenceNumber'' of
                Inl e \<Rightarrow> reject e
              | Inr sequenceNumber \<Rightarrow>
                  resolve (minimumSequenceNumber, sequenceNumber)))) w = (w', Inr (msn, sn))
   \<longleftrightarrow>
   (\<exists>a. parse_base64_json P c = Some a \<and>
        get_property a ''minimumSequenceNumber'' = Inr msn \<and>
        get_property a ''sequenceNumber'' = Inr sn) \<and> w' = w"
  by (auto simp: resolve_def reject_def split: option.splits sum.splits)

lemma sequencing_None_Inr:
  "createFork_sequencing P gm name None w = (w', Inr (msn, sn)) \<longleftrightarrow>
     msn = JNum 0 \<and> sn = JNum 0 \<and> w' = w"
  by (auto simp: createFork_sequencing_def resolve_def StartingSequenceNumber_def)

lemma sequencing_Some_Inr:
  "createFork_sequencing P gm name (Some sha) w = (w', Inr (msn, sn)) \<longleftrightarrow>
     GetContent sha ''.attributes'' \<notin> rejecting w \<and> UpsertRef name sha \<notin> rejecting w \<and>
     (\<exists>g c a. tenants w gm = Some g \<and> blobs g (sha, ''.attributes'') = Some c \<and>
        parse_base64_json P c = Some a \<and>
        get_property a ''minimumSequenceNumber'' = Inr msn \<and>
        get_property a ''sequenceNumber'' = Inr sn \<and>
        w' = w\<lparr>calls := calls w @ [GetContent sha ''.attributes'', UpsertRef name sha],
               tenants := (tenants w)(gm \<mapsto> g\<lparr>refs := (refs g)(name \<mapsto> sha)\<rparr>)\<rparr>)"
  by (auto simp: createFork_sequencing_def await_Inr await_all_Inr case_prod_beta decode_Inr
      getContent_Inr upsertRef_Inr)

lemma sequencing_frame:
  assumes "createFork_sequencing P gm name head w = (w', Inr p)"
  shows "rejecting w' = rejecting w" and "database w' = database w" and "sent w' = sent w"
  using assms by (cases head; cases p; auto simp: sequencing_None_Inr sequencing_Some_Inr)+

lemma records_Inr:
  "createFork_records P coll t i name msn sn w = (w', Inr u) \<longleftrightarrow>
     InsertOne name t \<notin> rejecting w \<and> Update i t \<notin> rejecting w \<and>
     database w coll (name, t) = None \<and>
     w' = w\<lparr>calls := calls w @ [InsertOne name t, Update i t],
            database := (database w)
              (coll :=
                 ((database w coll)((name, t) \<mapsto>
                    \<lparr>doc_branchMap = JUndefined, doc_clients = JUndefined,
                     doc_createTime = now_createTime P, doc_documentId = name,
                     doc_forks = Some [], doc_logOffset = JUndefined,
                     doc_minimumSequenceNumber = JUndefined,
                     doc_parent =
                       Some \<lparr>parent_documentId = i, parent_minimumSequenceNumber = msn,
                             parent_sequenceNumber = sn, parent_tenantId = t\<rparr>,
                     doc_sequenceNumber = sn, doc_tenantId = t\<rparr>))
                 ((i, t) :=
                    map_option (append_fork \<lparr>fork_documentId = name, fork_tenantId = t\<rparr>)
                      (((database w coll)((name, t) \<mapsto>
                          \<lparr>doc_branchMap = JUndefined, doc_clients = JUndefined,
                           doc_createTime = now_createTime P, doc_documentId = name,
                           doc_forks = Some [], doc_logOffset = JUndefined,
                           doc_minimumSequenceNumber = JUndefined,
                           doc_parent =
                             Some \<lparr>parent_documentId = i, parent_minimumSequenceNumber = msn,
                                   parent_sequenceNumber = sn, parent_tenantId = t\<rparr>,
                           doc_sequenceNumber = sn, doc_tenantId = t\<rparr>)) (i, t))))\<rparr>"
proof -
  have "createFork_records P coll t i name msn sn w = (w', Inr u) \<longleftrightarrow>
    (\<exists>w1 x. insertOne coll
          \<lparr>doc_branchMap = JUndefined, doc_clients = JUndefined,
           doc_createTime = now_createTime P, doc_documentId = name,
           doc_forks = Some [], doc_logOffset = JUndefined,
           doc_minimumSequenceNumber = JUndefined,
           doc_parent =
             Some \<lparr>parent_documentId = i, parent_minimumSequenceNumber = msn,
                   parent_sequenceNumber = sn, parent_tenantId = t\<rparr>,
           doc_sequenceNumber = sn, doc_tenantId = t\<rparr> w = (w1, Inr u) \<and>
       update coll i t \<lparr>fork_documentId = name, fork_tenantId = t\<rparr> w1 = (w', Inr x))"
    by (auto simp: createFork_records_def split: prod.splits sum.splits)
  then show ?thesis
    by (auto simp: insertOne_Inr update_Inr)
qed

lemma createFork_Inr_steps:
  "createFork P coll t i w = (w', Inr n) \<longleftrightarrow>
     n = moniker_choose P \<and>
     (\<exists>w1 gm w2 head w3 msn sn w4 w5.
        getTenant t w = (w1, Inr gm) \<and>
        getRef gm i w1 = (w2, Inr head) \<and>
        createFork_sequencing P gm n head w2 = (w3, Inr (msn, sn)) \<and>
        getDatabase w3 = (w4, Inr ()) \<and>
        createFork_records P coll t i n msn sn w4 = (w5, Inr ()) \<and>
        sendIntegrateStream P t i sn msn n w5 = (w', Inr ()))"
  by (auto simp: createFork_def Let_def await_Inr resolve_def)



lemma createFork_Inr_requests:
  assumes "createFork P coll t i w = (w', Inr n)"
  shows "n = moniker_choose P" and "tenants w t \<noteq> None"
    and "GetTenant t \<notin> rejecting w" and "GetRef i \<notin> rejecting w"
    and "GetDatabase \<notin> rejecting w" and "InsertOne n t \<notin> rejecting w"
    and "Update i t \<notin> rejecting w" and "Send i \<notin> rejecting w"
    and "database w coll (n, t) = None" and "rejecting w' = rejecting w"
proof -
  from assms obtain w1 gm w2 head w3 msn sn w4 w5 where
    n: "n = moniker_choose P" and
    1: "getTenant t w = (w1, Inr gm)" and
    2: "getRef gm i w1 = (w2, Inr head)" and
    3: "createFork_sequencing P gm n head w2 = (w3, Inr (msn, sn))" and
    4: "getDatabase w3 = (w4, Inr ())" and
    5: "createFork_records P coll t i n msn sn w4 = (w5, Inr ())" and
    6: "sendIntegrateStream P t i sn msn n w5 = (w', Inr ())"
    unfolding createFork_Inr_steps by blast
  from 1 have a: "GetTenant t \<notin> rejecting w" "tenants w t \<noteq> None" "rejecting w1 = rejecting w"
    "database w1 = database w"
    by (auto simp: getTenant_Inr)
  from 2 have b: "GetRef i \<notin> rejecting w1" "rejecting w2 = rejecting w1" "database w2 = database w1"
    by (auto simp: getRef_Inr)
  note c = sequencing_frame [OF 3]
  from 4 have d: "GetDatabase \<notin> rejecting w3" "rejecting w4 = rejecting w3"
    "database w4 = database w3"
    by (auto simp: getDatabase_Inr)
  from 5 have e: "InsertOne n t \<notin> rejecting w4" "Update i t \<notin> rejecting w4"
    "rejecting w5 = rejecting w4" "database w4 coll (n, t) = None"
    by (auto simp: records_Inr)
  from 6 have f: "Send i \<notin> rejecting w5" "rejecting w' = rejecting w5"
    by (auto simp: sendIntegrateStream_Inr)
  show "n = moniker_choose P" by (rule n)
  show "tenants w t \<noteq> None" by (rule a)
  show "GetTenant t \<notin> rejecting w" by (rule a)
  show "GetRef i \<notin> rejecting w" using a b by simp
  show "GetDatabase \<notin> rejecting w" using a b c d by simp
  show "InsertOne n t \<notin> rejecting w" using a b c d e by simp
  show "Update i t \<notin> rejecting w" using a b c d e by simp
  show "Send i \<notin> rejecting w" using a b c d e f by simp
  show "database w coll (n, t) = None" using a b c d e by simp
  show "rejecting w' = rejecting w" using a b c d e f by simp
qed

lemma createFork_Inr_no_head:
  assumes "createFork P coll t i w = (w', Inr n)"
    and "tenants w t = Some g" and "refs g i = None"
    and "msn = JNum 0" and "sn = JNum 0"
  shows "w' = w\<lparr>database := (database w)
             (coll :=
                ((database w coll)((n, t) \<mapsto> \<lparr>doc_branchMap = JUndefined, doc_clients = JUndefined,
                    doc_createTime = now_createTime P, doc_documentId = n,
                    doc_forks = Some [], doc_logOffset = JUndefined,
                    doc_minimumSequenceNumber = JUndefined,
                    doc_parent =
                      Some \<lparr>parent_documentId = i, parent_minimumSequenceNumber = msn,
                            parent_sequenceNumber = sn, parent_tenantId = t\<rparr>,
                    doc_sequenceNumber = sn, doc_tenantId = t\<rparr>))
                  ((i, t) :=
                     map_option (append_fork \<lparr>fork_documentId = n, fork_tenantId = t\<rparr>)
                       (((database w coll)((n, t) \<mapsto> \<lparr>doc_branchMap = JUndefined, doc_clients = JUndefined,
                    doc_createTime = now_createTime P, doc_documentId = n,
                    doc_forks = Some [], doc_logOffset = JUndefined,
                    doc_minimumSequenceNumber = JUndefined,
                    doc_parent =
                      Some \<lparr>parent_documentId = i, parent_minimumSequenceNumber = msn,
                            parent_sequenceNumber = sn, parent_tenantId = t\<rparr>,
                    doc_sequenceNumber = sn, doc_tenantId = t\<rparr>)) (i, t)))),
           sent := sent w @ [(stringify P \<lparr>msg_clientId = JNull, msg_documentId = i,
                  msg_operation =
                    \<lparr>op_clientSequenceNumber = - 1,
                     op_contents =
                       \<lparr>contents_documentId = n, contents_minSequenceNumber = msn,
                        contents_sequenceNumber = sn, contents_tenantId = t\<rparr>,
                     op_referenceSequenceNumber = - 1, op_traces = [], op_type = Fork\<rparr>,
                  msg_tenantId = t, msg_timestamp = now_timestamp P,
                  msg_type = RawOperationType, msg_user = JNull\<rparr>, i)],
           calls := calls w @
             [GetTenant t, GetRef i, GetDatabase, InsertOne n t, Update i t, Send i]\<rparr>"
  using assms
  by (auto simp: createFork_Inr_steps getTenant_Inr getRef_Inr sequencing_None_Inr
      getDatabase_Inr records_Inr sendIntegrateStream_Inr cong: if_cong)

lemma createFork_Inr_attributes:
  assumes "createFork P coll t i w = (w', Inr n)"
    and "tenants w t = Some g" and "refs g i = Some sha"
  shows "GetContent sha ''.attributes'' \<notin> rejecting w" and "UpsertRef n sha \<notin> rejecting w"
    and "\<exists>c a msn sn.
       blobs g (sha, ''.attributes'') = Some c \<and> parse_base64_json P c = Some a \<and>
       get_property a ''minimumSequenceNumber'' = Inr msn \<and>
       get_property a ''sequenceNumber'' = Inr sn"
  using assms
  by (auto simp: createFork_Inr_steps getTenant_Inr getRef_Inr sequencing_Some_Inr)

lemma createFork_Inr_head:
  assumes "createFork P coll t i w = (w', Inr n)"
    and "tenants w t = Some g" and "refs g i = Some sha"
    and "blobs g (sha, ''.attributes'') = Some c" and "parse_base64_json P c = Some a"
    and "get_property a ''minimumSequenceNumber'' = Inr msn"
    and "get_property a ''sequenceNumber'' = Inr sn"
  shows "w' = w\<lparr>tenants := (tenants w)(t \<mapsto> g\<lparr>refs := (refs g)(n \<mapsto> sha)\<rparr>),
           database := (database w)
             (coll :=
                ((database w coll)((n, t) \<mapsto> \<lparr>doc_branchMap = JUndefined, doc_clients = JUndefined,
                    doc_createTime = now_createTime P, doc_documentId = n,
                    doc_forks = Some [], doc_logOffset = JUndefined,
                    doc_minimumSequenceNumber = JUndefined,
                    doc_parent =
                      Some \<lparr>parent_documentId = i, parent_minimumSequenceNumber = msn,
                            parent_sequenceNumber = sn, parent_tenantId = t\<rparr>,
                    doc_sequenceNumber = sn, doc_tenantId = t\<rparr>))
                  ((i, t) :=
                     map_option (append_fork \<lparr>fork_documentId = n, fork_tenantId = t\<rparr>)
                       (((database w coll)((n, t) \<mapsto> \<lparr>doc_branchMap = JUndefined, doc_clients = JUndefined,
                    doc_createTime = now_createTime P, doc_documentId = n,
                    doc_forks = Some [], doc_logOffset = JUndefined,
                    doc_minimumSequenceNumber = JUndefined,
                    doc_parent =
                      Some \<lparr>parent_documentId = i, parent_minimumSequenceNumber = msn,
                            parent_sequenceNumber = sn, parent_tenantId = t\<rparr>,
                    doc_sequenceNumber = sn, doc_tenantId = t\<rparr>)) (i, t)))),
           sent := sent w @ [(stringify P \<lparr>msg_clientId = JNull, msg_documentId = i,
                  msg_operation =
                    \<lparr>op_clientSequenceNumber = - 1,
                     op_contents =
                       \<lparr>contents_documentId = n, contents_minSequenceNumber = msn,
                        contents_sequenceNumber = sn, contents_tenantId = t\<rparr>,
                     op_referenceSequenceNumber = - 1, op_traces = [], op_type = Fork\<rparr>,
                  msg_tenantId = t, msg_timestamp = now_timestamp P,
                  msg_type = RawOperationType, msg_user = JNull\<rparr>, i)],
           calls := calls w @
             [GetTenant t, GetRef i, GetContent sha ''.attributes'', UpsertRef n sha,
              GetDatabase, InsertOne n t, Update i t, Send i]\<rparr>"
  using assms
  by (auto simp: createFork_Inr_steps getTenant_Inr getRef_Inr sequencing_Some_Inr
      getDatabase_Inr records_Inr sendIntegrateStream_Inr cong: if_cong)

lemma createFork_Inr_sent:
  assumes "createFork P coll t i w = (w', Inr n)"
  shows "\<exists>msn sn. sent w' = sent w @
      [(stringify P
          \<lparr>msg_clientId = JNull, msg_documentId = i,
           msg_operation =
             \<lparr>op_clientSequenceNumber = - 1,
              op_contents =
                \<lparr>contents_documentId = n, contents_minSequenceNumber = msn,
                 contents_sequenceNumber = sn, contents_tenantId = t\<rparr>,
              op_referenceSequenceNumber = - 1, op_traces = [], op_type = Fork\<rparr>,
           msg_tenantId = t, msg_timestamp = now_timestamp P,
           msg_type = RawOperationType, msg_user = JNull\<rparr>, i)]"
proof -
  from assms obtain w3 msn sn w4 w5 where
    3: "sent w3 = sent w" and
    4: "getDatabase w3 = (w4, Inr ())" and
    5: "createFork_records P coll t i n msn sn w4 = (w5, Inr ())" and
    6: "sendIntegrateStream P t i sn msn n w5 = (w', Inr ())"
    by (auto simp: createFork_Inr_steps getTenant_Inr getRef_Inr dest!: sequencing_frame(3))
  from 4 have "sent w4 = sent w3"
    by (auto simp: getDatabase_Inr)
  moreover from 5 have "sent w5 = sent w4"
    by (auto simp: records_Inr)
  moreover note 3
  moreover from 6 have "sent w' = sent w5 @
      [(stringify P
          \<lparr>msg_clientId = JNull, msg_documentId = i,
           msg_operation =
             \<lparr>op_clientSequenceNumber = - 1,
              op_contents =
                \<lparr>contents_documentId = n, contents_minSequenceNumber = msn,
                 contents_sequenceNumber = sn, contents_tenantId = t\<rparr>,
              op_referenceSequenceNumber = - 1, op_traces = [], op_type = Fork\<rparr>,
           msg_tenantId = t, msg_timestamp = now_timestamp P,
           msg_type = RawOperationType, msg_user = JNull\<rparr>, i)]"
    by (auto simp: sendIntegrateStream_Inr)
  ultimately show ?thesis by auto
qed

lemma createFork_Inr_database:
  assumes "createFork P coll t i w = (w', Inr n)"
  shows "\<exists>msn sn. database w' =
    (database w)
      (coll :=
         ((database w coll)((n, t) \<mapsto>
            \<lparr>doc_branchMap = JUndefined, doc_clients = JUndefined,
             doc_createTime = now_createTime P, doc_documentId = n,
             doc_forks = Some [], doc_logOffset = JUndefined,
             doc_minimumSequenceNumber = JUndefined,
             doc_parent =
               Some \<lparr>parent_documentId = i, parent_minimumSequenceNumber = msn,
                     parent_sequenceNumber = sn, parent_tenantId = t\<rparr>,
             doc_sequenceNumber = sn, doc_tenantId = t\<rparr>))
         ((i, t) :=
            map_option (append_fork \<lparr>fork_documentId = n, fork_tenantId = t\<rparr>)
              (((database w coll)((n, t) \<mapsto>
                  \<lparr>doc_branchMap = JUndefined, doc_clients = JUndefined,
                   doc_createTime = now_createTime P, doc_documentId = n,
                   doc_forks = Some [], doc_logOffset = JUndefined,
                   doc_minimumSequenceNumber = JUndefined,
                   doc_parent =
                     Some \<lparr>parent_documentId = i, parent_minimumSequenceNumber = msn,
                           parent_sequenceNumber = sn, parent_tenantId = t\<rparr>,
                   doc_sequenceNumber = sn, doc_tenantId = t\<rparr>)) (i, t))))"
proof -
  from assms obtain w3 msn sn w4 w5 where
    3: "database w3 = database w" and
    4: "getDatabase w3 = (w4, Inr ())" and
    5: "createFork_records P coll t i n msn sn w4 = (w5, Inr ())" and
    6: "sendIntegrateStream P t i sn msn n w5 = (w', Inr ())"
    by (auto simp: createFork_Inr_steps getTenant_Inr getRef_Inr dest!: sequencing_frame(2))
  from 4 have "database w4 = database w3"
    by (auto simp: getDatabase_Inr)
  with 3 have 7: "database w4 = database w"
    by simp
  from 6 have "database w' = database w5"
    by (auto simp: sendIntegrateStream_Inr)
  with 5 7 show ?thesis
    by (simp add: records_Inr) blast
qed

lemma createFork_Inr_parent_forks:
  assumes "createFork P coll t i w = (w', Inr n)" and "i \<noteq> n"
  shows "database w' coll (i, t) =
    map_option (append_fork \<lparr>fork_documentId = n, fork_tenantId = t\<rparr>) (database w coll (i, t))"
  using createFork_Inr_database [OF assms(1)] assms(2) by auto

section \<open>The requests of any run\<close>

text \<open>
  Whatever its outcome, each function issues the same requests up to the point where it
  stops; the two requests of a pair that is awaited together are both issued.
\<close>

lemma request_calls:
  "request c w = (w1, r) \<Longrightarrow>
     calls w1 = calls w @ [c] \<and> tenants w1 = tenants w \<and> rejecting w1 = rejecting w"
  by (auto simp: request_def)

lemma getTenant_calls:
  assumes "getTenant t w = (w1, r)"
  shows "calls w1 = calls w @ [GetTenant t]" and "tenants w1 = tenants w"
    and "r = Inr gm \<Longrightarrow> gm = t \<and> tenants w t \<noteq> None"
    and "r = Inl e \<Longrightarrow> GetTenant t \<in> rejecting w \<or> tenants w t = None"
    and "rejecting w1 = rejecting w"
  using assms
  by (auto simp: getTenant_def await_def request_def split: if_splits option.splits)

lemma getRef_calls:
  assumes "getRef gm i w = (w1, r)"
  shows "calls w1 = calls w @ [GetRef i]" and "tenants w1 = tenants w"
    and "r = Inr head \<Longrightarrow> \<exists>g. tenants w gm = Some g \<and> head = refs g i"
    and "r = Inl e \<Longrightarrow> GetRef i \<in> rejecting w \<or> tenants w gm = None"
  using assms
  by (auto simp: getRef_def await_def request_def split: if_splits option.splits)

lemma getContent_calls:
  "getContent gm sha p w = (w1, r) \<Longrightarrow> calls w1 = calls w @ [GetContent sha p]"
  by (auto simp: getContent_def await_def request_def split: if_splits option.splits)

lemma upsertRef_calls:
  "upsertRef gm n sha w = (w1, r) \<Longrightarrow> calls w1 = calls w @ [UpsertRef n sha]"
  by (auto simp: upsertRef_def await_def request_def split: if_splits option.splits)

lemma reject_or_resolve_calls:
  "(case p of None \<Rightarrow> reject e
    | Some a \<Rightarrow>
        (case f a of Inl e \<Rightarrow> reject e
         | Inr x \<Rightarrow> (case h a of Inl e \<Rightarrow> reject e | Inr y \<Rightarrow> resolve (x, y)))) w = (w1, r)
   \<Longrightarrow> w1 = w"
  by (auto simp: reject_def resolve_def split: option.splits sum.splits)

lemma sequencing_calls:
  assumes "createFork_sequencing P gm n head w = (w1, r)"
  shows "calls w1 = calls w @
    (case head of None \<Rightarrow> [] | Some sha \<Rightarrow> [GetContent sha ''.attributes'', UpsertRef n sha])"
proof (cases head)
  case None
  with assms show ?thesis
    by (auto simp: createFork_sequencing_def resolve_def)
next
  case (Some sha)
  obtain wa ra where a: "getContent gm sha ''.attributes'' w = (wa, ra)"
    by (cases "getContent gm sha ''.attributes'' w")
  obtain wb rb where b: "upsertRef gm n sha wa = (wb, rb)"
    by (cases "upsertRef gm n sha wa")
  from getContent_calls [OF a] upsertRef_calls [OF b]
  have c: "calls wb = calls w @ [GetContent sha ''.attributes'', UpsertRef n sha]"
    by simp
  from assms Some a b have "w1 = wb"
    by (auto simp: createFork_sequencing_def await_def await_all_def
        split: sum.splits dest: reject_or_resolve_calls)
  with c Some show ?thesis by simp
qed

lemma getDatabase_calls:
  "getDatabase w = (w1, r) \<Longrightarrow> calls w1 = calls w @ [GetDatabase]"
  by (auto simp: getDatabase_def request_def)

lemma insertOne_calls:
  "insertOne coll d w = (w1, r) \<Longrightarrow>
     calls w1 = calls w @ [InsertOne (doc_documentId d) (doc_tenantId d)]"
  by (auto simp: insertOne_def await_def request_def split: if_splits option.splits)

lemma update_calls:
  "update coll i t e w = (w1, r) \<Longrightarrow> calls w1 = calls w @ [Update i t]"
  by (auto simp: update_def await_def request_def split: if_splits)

lemma records_calls:
  assumes "createFork_records P coll t i n msn sn w = (w1, r)"
  shows "calls w1 = calls w @ [InsertOne n t, Update i t]"
  using assms
  by (auto simp: createFork_records_def split: prod.splits sum.splits
      dest!: insertOne_calls update_calls)

lemma sendIntegrateStream_calls:
  "sendIntegrateStream P t i sn msn n w = (w1, r) \<Longrightarrow> calls w1 = calls w @ [Send i]"
  by (auto simp: sendIntegrateStream_def Let_def send_def await_def request_def
      split: if_splits)

section \<open>Evaluating the functions\<close>

lemmas model_defs = createFork_def createFork_sequencing_def createFork_records_def
  sendIntegrateStream_def getForks_def getOrCreateDocument_def getOrCreateObject_def
  getTenant_def getRef_def getContent_def upsertRef_def getDatabase_def
  findOne_def findOrCreate_def insertOne_def update_def send_def request_def
  await_def await_all_def resolve_def reject_def Let_def

lemmas example_defs = example_platform_def example_world_def example_git_def
  example_attributes_def example_parent_def

lemma getForks_present:
  assumes "GetDatabase \<notin> rejecting w" and "FindOne d t \<notin> rejecting w"
    and "database w coll (d, t) = Some r"
  shows "getForks coll t d w =
    (w\<lparr>calls := calls w @ [GetDatabase, FindOne d t]\<rparr>,
     Inr (case doc_forks r of None \<Rightarrow> [] | Some fs \<Rightarrow> fs))"
  using assms by (simp add: model_defs)

lemma getForks_absent:
  assumes "GetDatabase \<notin> rejecting w" and "FindOne d t \<notin> rejecting w"
    and "database w coll (d, t) = None"
  shows "getForks coll t d w =
    (w\<lparr>calls := calls w @ [GetDatabase, FindOne d t]\<rparr>, Inl TypeError)"
  using assms by (simp add: model_defs)

lemma createFork_unparsed:
  assumes "tenants w t = Some g" and "refs g i = Some sha" and "rejecting w = {}"
    and "blobs g (sha, ''.attributes'') = Some c" and "parse_base64_json P c = None"
  shows "createFork P coll t i w =
    (w\<lparr>tenants := (tenants w)(t \<mapsto> g\<lparr>refs := (refs g)(moniker_choose P \<mapsto> sha)\<rparr>),
       calls := calls w @
         [GetTenant t, GetRef i, GetContent sha ''.attributes'',
          UpsertRef (moniker_choose P) sha]\<rparr>,
     Inl SyntaxError)"
  using assms by (simp add: model_defs)

lemma createFork_unread:
  assumes "tenants w t = Some g" and "refs g i = Some sha" and "rejecting w = {}"
    and "blobs g (sha, ''.attributes'') = None"
  shows "createFork P coll t i w =
    (w\<lparr>tenants := (tenants w)(t \<mapsto> g\<lparr>refs := (refs g)(moniker_choose P \<mapsto> sha)\<rparr>),
       calls := calls w @
         [GetTenant t, GetRef i, GetContent sha ''.attributes'',
          UpsertRef (moniker_choose P) sha]\<rparr>,
     Inl NotFound)"
  using assms by (simp add: model_defs)

lemma example_run:
  "createFork example_platform ''documents'' ''t1'' ''doc1'' (example_world ''attrs'') =
     (fst (createFork example_platform ''documents'' ''t1'' ''doc1'' (example_world ''attrs'')),
      Inr ''fork1'')"
  by (simp add: model_defs example_defs)

lemma example_new_run:
  "createFork example_platform ''documents'' ''t1'' ''doc1'' example_new_world =
     (fst (createFork example_platform ''documents'' ''t1'' ''doc1'' example_new_world),
      Inr ''fork1'')"
  by (simp add: model_defs example_defs example_new_world_def)

section \<open>Properties\<close>

text \<open>
  C1. When the parent has a head ref and the \<^verbatim>\<open>.attributes\<close> blob at the head commit parses
  to an object whose \<^verbatim>\<open>sequenceNumber\<close> is \<open>S\<close> and whose \<^verbatim>\<open>minimumSequenceNumber\<close> is \<open>M\<close>,
  a successful \<^verbatim>\<open>createFork\<close> inserts a record for the generated name, which was not in the
  collection before, whose \<^verbatim>\<open>parent\<close> is exactly
  \<^verbatim>\<open>{documentId: id, minimumSequenceNumber: M, sequenceNumber: S, tenantId}\<close>, the two numbers
  being the parsed values as they are, and the tenant's git store then has a ref of that
  name pointing at the sha of the parent's head.
\<close>

theorem createFork_parent_verbatim:
  assumes "createFork P coll t i w = (w', Inr n)"
    and "tenants w t = Some g" and "refs g i = Some sha"
    and "blobs g (sha, ''.attributes'') = Some c" and "parse_base64_json P c = Some a"
    and "get_property a ''sequenceNumber'' = Inr S"
    and "get_property a ''minimumSequenceNumber'' = Inr M"
  shows "database w coll (n, t) = None \<and>
    (\<exists>r. database w' coll (n, t) = Some r \<and> doc_documentId r = n \<and> doc_tenantId r = t \<and>
         doc_parent r =
           Some \<lparr>parent_documentId = i, parent_minimumSequenceNumber = M,
                 parent_sequenceNumber = S, parent_tenantId = t\<rparr>) \<and>
    (\<exists>g'. tenants w' t = Some g' \<and> refs g' n = Some sha)"
proof -
  note w' = createFork_Inr_head [OF assms(1-5) assms(7) assms(6)]
  have "database w coll (n, t) = None"
    by (rule createFork_Inr_requests(9) [OF assms(1)])
  moreover have "\<exists>r. database w' coll (n, t) = Some r \<and> doc_documentId r = n \<and>
      doc_tenantId r = t \<and>
      doc_parent r =
        Some \<lparr>parent_documentId = i, parent_minimumSequenceNumber = M,
              parent_sequenceNumber = S, parent_tenantId = t\<rparr>"
    by (simp add: w' append_fork_def)
  moreover have "\<exists>g'. tenants w' t = Some g' \<and> refs g' n = Some sha"
    by (simp add: w')
  ultimately show ?thesis by blast
qed

text \<open>
  C1, at the example: the attributes 42 and 10 of the head commit \<open>sha1\<close> become the
  \<^verbatim>\<open>parent\<close> of the record of \<open>fork1\<close>, and the ref \<open>fork1\<close> points at \<open>sha1\<close>.
\<close>

theorem createFork_parent_verbatim_witness:
  "createFork example_platform ''documents'' ''t1'' ''doc1'' (example_world ''attrs'') =
     (fst (createFork example_platform ''documents'' ''t1'' ''doc1'' (example_world ''attrs'')),
      Inr ''fork1'') \<and>
   tenants (example_world ''attrs'') ''t1'' = Some (example_git ''attrs'') \<and>
   refs (example_git ''attrs'') ''doc1'' = Some ''sha1'' \<and>
   blobs (example_git ''attrs'') (''sha1'', ''.attributes'') = Some ''attrs'' \<and>
   parse_base64_json example_platform ''attrs'' = Some example_attributes \<and>
   get_property example_attributes ''sequenceNumber'' = Inr (JNum 42) \<and>
   get_property example_attributes ''minimumSequenceNumber'' = Inr (JNum 10) \<and>
   (\<exists>r. database
          (fst (createFork example_platform ''documents'' ''t1'' ''doc1''
                  (example_world ''attrs'')))
          ''documents'' (''fork1'', ''t1'') = Some r \<and>
        doc_parent r =
          Some \<lparr>parent_documentId = ''doc1'', parent_minimumSequenceNumber = JNum 10,
                parent_sequenceNumber = JNum 42, parent_tenantId = ''t1''\<rparr>) \<and>
   (\<exists>g'. tenants
           (fst (createFork example_platform ''documents'' ''t1'' ''doc1''
                   (example_world ''attrs'')))
           ''t1'' = Some g' \<and>
         refs g' ''fork1'' = Some ''sha1'')"
proof -
  have 1: "tenants (example_world ''attrs'') ''t1'' = Some (example_git ''attrs'')"
    and 2: "refs (example_git ''attrs'') ''doc1'' = Some ''sha1''"
    and 3: "blobs (example_git ''attrs'') (''sha1'', ''.attributes'') = Some ''attrs''"
    and 4: "parse_base64_json example_platform ''attrs'' = Some example_attributes"
    and 5: "get_property example_attributes ''sequenceNumber'' = Inr (JNum 42)"
    and 6: "get_property example_attributes ''minimumSequenceNumber'' = Inr (JNum 10)"
    by (simp_all add: example_defs)
  from createFork_parent_verbatim [OF example_run 1 2 3 4 5 6] example_run 1 2 3 4 5 6
  show ?thesis by blast
qed

text \<open>
  C2, as the code has it. When the parent has a head ref, no request is rejected, and the
  \<^verbatim>\<open>.attributes\<close> blob at the head commit is missing or \<^verbatim>\<open>JSON.parse\<close> throws on it,
  \<^verbatim>\<open>createFork\<close> fails with the error of the read or of the parse and falls back to no
  default for the sequence numbers. The collection and the producer are as they were: no
  record, no entry in the parent's \<^verbatim>\<open>forks\<close>, no message. The ref named by the generated
  name, whose request line 137 issues together with the read, has been created at the
  head commit all the same, and the file has no step that removes it.
\<close>

theorem createFork_corrupt_attributes:
  assumes "tenants w t = Some g" and "refs g i = Some sha" and "rejecting w = {}"
    and "blobs g (sha, ''.attributes'') = None \<or>
         (\<exists>c. blobs g (sha, ''.attributes'') = Some c \<and> parse_base64_json P c = None)"
  shows "\<exists>w' e. createFork P coll t i w = (w', Inl e) \<and> (e = NotFound \<or> e = SyntaxError) \<and>
    database w' = database w \<and> sent w' = sent w \<and>
    tenants w' = (tenants w)(t \<mapsto> g\<lparr>refs := (refs g)(moniker_choose P \<mapsto> sha)\<rparr>) \<and>
    calls w' = calls w @
      [GetTenant t, GetRef i, GetContent sha ''.attributes'', UpsertRef (moniker_choose P) sha]"
  using assms(4)
proof
  assume "blobs g (sha, ''.attributes'') = None"
  from createFork_unread [OF assms(1-3) this] show ?thesis
    by simp
next
  assume "\<exists>c. blobs g (sha, ''.attributes'') = Some c \<and> parse_base64_json P c = None"
  then obtain c where "blobs g (sha, ''.attributes'') = Some c" "parse_base64_json P c = None"
    by blast
  from createFork_unparsed [OF assms(1-3) this] show ?thesis
    by simp
qed

text \<open>C2, at the example whose attributes do not parse.\<close>

theorem createFork_corrupt_attributes_witness:
  "tenants (example_world ''bad'') ''t1'' = Some (example_git ''bad'') \<and>
   refs (example_git ''bad'') ''doc1'' = Some ''sha1'' \<and>
   rejecting (example_world ''bad'') = {} \<and>
   blobs (example_git ''bad'') (''sha1'', ''.attributes'') = Some ''bad'' \<and>
   parse_base64_json example_platform ''bad'' = None \<and>
   (\<exists>w' e. createFork example_platform ''documents'' ''t1'' ''doc1'' (example_world ''bad'') =
        (w', Inl e) \<and>
      database w' = database (example_world ''bad'') \<and> sent w' = sent (example_world ''bad'') \<and>
      tenants w' = (tenants (example_world ''bad''))
        (''t1'' \<mapsto> (example_git ''bad'')\<lparr>refs := (refs (example_git ''bad''))(''fork1'' \<mapsto> ''sha1'')\<rparr>))"
proof -
  have 1: "tenants (example_world ''bad'') ''t1'' = Some (example_git ''bad'')"
    and 2: "refs (example_git ''bad'') ''doc1'' = Some ''sha1''"
    and 3: "rejecting (example_world ''bad'') = {}"
    and 4: "blobs (example_git ''bad'') (''sha1'', ''.attributes'') = Some ''bad''"
    and 5: "parse_base64_json example_platform ''bad'' = None"
    and 6: "moniker_choose example_platform = ''fork1''"
    by (simp_all add: example_defs)
  from 4 5 have "blobs (example_git ''bad'') (''sha1'', ''.attributes'') = None \<or>
      (\<exists>c. blobs (example_git ''bad'') (''sha1'', ''.attributes'') = Some c \<and>
         parse_base64_json example_platform c = None)"
    by blast
  from createFork_corrupt_attributes [OF 1 2 3 this, of "''documents''"] 1 2 3 4 5 6
  show ?thesis by auto
qed

text \<open>
  C2 as the specification states it, "no new ref is observable", fails at the example
  whose attributes do not parse: \<^verbatim>\<open>getRef\<close> finds no ref \<open>fork1\<close> before the request,
  \<^verbatim>\<open>createFork\<close> fails with the \<^verbatim>\<open>SyntaxError\<close>, and \<^verbatim>\<open>getRef\<close> finds the ref \<open>fork1\<close> at
  \<open>sha1\<close> afterwards.
\<close>

theorem createFork_corrupt_attributes_counterexample:
  "snd (getRef ''t1'' ''fork1'' (example_world ''bad'')) = Inr None \<and>
   snd (createFork example_platform ''documents'' ''t1'' ''doc1'' (example_world ''bad'')) =
     Inl SyntaxError \<and>
   snd (getRef ''t1'' ''fork1''
          (fst (createFork example_platform ''documents'' ''t1'' ''doc1''
                  (example_world ''bad'')))) =
     Inr (Some ''sha1'')"
  by (simp add: model_defs example_defs)

text \<open>
  C3, as the code has it. For a key with no record, \<^verbatim>\<open>getOrCreateDocument\<close> stores and
  returns, with \<^verbatim>\<open>existing = false\<close>, the record of lines 204 to 214: \<^verbatim>\<open>sequenceNumber\<close> 0,
  empty \<^verbatim>\<open>forks\<close>, \<^verbatim>\<open>parent\<close> null, and no \<^verbatim>\<open>minimumSequenceNumber\<close> at all (reading it
  gives \<^verbatim>\<open>undefined\<close>). A second call with the same key, whatever the clock says then,
  returns \<^verbatim>\<open>existing = true\<close> and the very same record, and leaves the collection as the
  first call left it.
\<close>

theorem getOrCreateDocument_idempotent:
  assumes "database w coll (d, t) = None"
    and "GetDatabase \<notin> rejecting w" and "FindOrCreate d t \<notin> rejecting w"
  shows "\<exists>w1 r1 w2 r2.
    getOrCreateDocument P coll t d w = (w1, Inr r1) \<and>
    res_existing r1 = False \<and>
    res_value r1 =
      \<lparr>doc_branchMap = JUndefined, doc_clients = JUndefined,
       doc_createTime = now_createTime P, doc_documentId = d, doc_forks = Some [],
       doc_logOffset = JUndefined, doc_minimumSequenceNumber = JUndefined,
       doc_parent = None, doc_sequenceNumber = JNum 0, doc_tenantId = t\<rparr> \<and>
    database w1 = (database w)(coll := (database w coll)((d, t) \<mapsto> res_value r1)) \<and>
    getOrCreateDocument P' coll t d w1 = (w2, Inr r2) \<and>
    res_existing r2 = True \<and>
    res_value r2 = res_value r1 \<and>
    database w2 = database w1"
  using assms by (simp add: model_defs StartingSequenceNumber_def)

text \<open>C3, at the example, for the document \<open>doc2\<close> that has no record.\<close>

theorem getOrCreateDocument_idempotent_witness:
  "database (example_world ''attrs'') ''documents'' (''doc2'', ''t1'') = None \<and>
   GetDatabase \<notin> rejecting (example_world ''attrs'') \<and>
   FindOrCreate ''doc2'' ''t1'' \<notin> rejecting (example_world ''attrs'') \<and>
   (\<exists>w1 r1 w2 r2.
      getOrCreateDocument example_platform ''documents'' ''t1'' ''doc2''
        (example_world ''attrs'') = (w1, Inr r1) \<and>
      res_existing r1 = False \<and>
      getOrCreateDocument example_platform ''documents'' ''t1'' ''doc2'' w1 = (w2, Inr r2) \<and>
      res_existing r2 = True \<and>
      res_value r2 = res_value r1 \<and>
      database w2 = database w1)"
proof -
  have 1: "database (example_world ''attrs'') ''documents'' (''doc2'', ''t1'') = None"
    and 2: "GetDatabase \<notin> rejecting (example_world ''attrs'')"
    and 3: "FindOrCreate ''doc2'' ''t1'' \<notin> rejecting (example_world ''attrs'')"
    by (simp_all add: example_defs)
  from getOrCreateDocument_idempotent [OF 1 2 3, of example_platform example_platform] 1 2 3
  show ?thesis by blast
qed

text \<open>
  C3 as the specification states it, with a \<^verbatim>\<open>minimumSequenceNumber\<close> of 0 in the new
  record, fails for the document \<open>doc2\<close> of the example: the record that is created has
  no \<^verbatim>\<open>minimumSequenceNumber\<close>.
\<close>

theorem getOrCreateDocument_idempotent_counterexample:
  "database (example_world ''attrs'') ''documents'' (''doc2'', ''t1'') = None \<and>
   snd (getOrCreateDocument example_platform ''documents'' ''t1'' ''doc2''
          (example_world ''attrs'')) =
     Inr \<lparr>res_existing = False,
          res_value =
            \<lparr>doc_branchMap = JUndefined, doc_clients = JUndefined, doc_createTime = 1000,
             doc_documentId = ''doc2'', doc_forks = Some [], doc_logOffset = JUndefined,
             doc_minimumSequenceNumber = JUndefined, doc_parent = None,
             doc_sequenceNumber = JNum 0, doc_tenantId = ''t1''\<rparr>\<rparr> \<and>
   doc_minimumSequenceNumber
     (res_value
        (projr (snd (getOrCreateDocument example_platform ''documents'' ''t1'' ''doc2''
                       (example_world ''attrs''))))) \<noteq> JNum 0"
  by (simp add: model_defs example_defs StartingSequenceNumber_def)

text \<open>
  C4. The specification has \<^verbatim>\<open>getForks\<close> return an empty sequence for a key with no record.
  In the code \<^verbatim>\<open>findOne\<close> resolves to \<^verbatim>\<open>null\<close> for such a key and \<^verbatim>\<open>document.forks\<close> then
  throws, before \<^verbatim>\<open>|| []\<close> is reached: for the document \<open>doc2\<close> of the example, which has no
  record, \<^verbatim>\<open>getForks\<close> is rejected with a \<^verbatim>\<open>TypeError\<close>. (With a record, \<open>getForks_present\<close>
  above gives the list of its \<^verbatim>\<open>forks\<close>, and the empty list when it has none.)
\<close>

theorem getForks_without_record:
  "database (example_world ''attrs'') ''documents'' (''doc2'', ''t1'') = None \<and>
   snd (getForks ''documents'' ''t1'' ''doc2'' (example_world ''attrs'')) = Inl TypeError"
  by (simp add: model_defs example_defs)

text \<open>
  C5. A successful \<^verbatim>\<open>createFork\<close> gives the producer exactly one more message, with the
  parent's id as its key. It is the \<^verbatim>\<open>JSON.stringify\<close> of the message with \<^verbatim>\<open>type\<close>
  \<open>RawOperation\<close>, \<^verbatim>\<open>documentId\<close> the parent's id, \<^verbatim>\<open>clientId\<close> and \<^verbatim>\<open>user\<close> null, and
  an operation of \<^verbatim>\<open>type\<close> \<open>Fork\<close> with both client numbers - 1, no traces, and the contents
  \<^verbatim>\<open>{documentId: name, minSequenceNumber, sequenceNumber, tenantId}\<close>, whose two numbers
  are the ones derived from the head: 0 and 0 without a head, the two properties of the
  parsed attributes with one.
\<close>

theorem createFork_announcement:
  assumes "createFork P coll t i w = (w', Inr n)"
  shows "\<exists>g msn sn.
    tenants w t = Some g \<and>
    (case refs g i of
       None \<Rightarrow> msn = JNum 0 \<and> sn = JNum 0
     | Some sha \<Rightarrow>
         (\<exists>c a. blobs g (sha, ''.attributes'') = Some c \<and> parse_base64_json P c = Some a \<and>
            get_property a ''minimumSequenceNumber'' = Inr msn \<and>
            get_property a ''sequenceNumber'' = Inr sn)) \<and>
    sent w' = sent w @
      [(stringify P
          \<lparr>msg_clientId = JNull, msg_documentId = i,
           msg_operation =
             \<lparr>op_clientSequenceNumber = - 1,
              op_contents =
                \<lparr>contents_documentId = n, contents_minSequenceNumber = msn,
                 contents_sequenceNumber = sn, contents_tenantId = t\<rparr>,
              op_referenceSequenceNumber = - 1, op_traces = [], op_type = ''Fork''\<rparr>,
           msg_tenantId = t, msg_timestamp = now_timestamp P,
           msg_type = ''RawOperation'', msg_user = JNull\<rparr>, i)]"
proof -
  from createFork_Inr_requests(2) [OF assms] obtain g where g: "tenants w t = Some g"
    by blast
  show ?thesis
  proof (cases "refs g i")
    case None
    note w' = createFork_Inr_no_head [OF assms g None refl refl]
    have "sent w' = sent w @
      [(stringify P
          \<lparr>msg_clientId = JNull, msg_documentId = i,
           msg_operation =
             \<lparr>op_clientSequenceNumber = - 1,
              op_contents =
                \<lparr>contents_documentId = n, contents_minSequenceNumber = JNum 0,
                 contents_sequenceNumber = JNum 0, contents_tenantId = t\<rparr>,
              op_referenceSequenceNumber = - 1, op_traces = [], op_type = ''Fork''\<rparr>,
           msg_tenantId = t, msg_timestamp = now_timestamp P,
           msg_type = ''RawOperation'', msg_user = JNull\<rparr>, i)]"
      by (simp add: w' Fork_def RawOperationType_def)
    with g None show ?thesis by auto
  next
    case (Some sha)
    from createFork_Inr_attributes(3) [OF assms g Some] obtain c a msn sn where
      att: "blobs g (sha, ''.attributes'') = Some c" "parse_base64_json P c = Some a"
        "get_property a ''minimumSequenceNumber'' = Inr msn"
        "get_property a ''sequenceNumber'' = Inr sn"
      by blast
    note w' = createFork_Inr_head [OF assms g Some att]
    have "sent w' = sent w @
      [(stringify P
          \<lparr>msg_clientId = JNull, msg_documentId = i,
           msg_operation =
             \<lparr>op_clientSequenceNumber = - 1,
              op_contents =
                \<lparr>contents_documentId = n, contents_minSequenceNumber = msn,
                 contents_sequenceNumber = sn, contents_tenantId = t\<rparr>,
              op_referenceSequenceNumber = - 1, op_traces = [], op_type = ''Fork''\<rparr>,
           msg_tenantId = t, msg_timestamp = now_timestamp P,
           msg_type = ''RawOperation'', msg_user = JNull\<rparr>, i)]"
      by (simp add: w' Fork_def RawOperationType_def)
    with g Some att show ?thesis by auto
  qed
qed

text \<open>
  C5, at the example: the one message has the types \<open>RawOperation\<close> and \<open>Fork\<close> and the
  \<^verbatim>\<open>documentId\<close> \<open>fork1\<close> in its contents, and is sent with the key \<open>doc1\<close>.
\<close>

theorem createFork_announcement_witness:
  "createFork example_platform ''documents'' ''t1'' ''doc1'' (example_world ''attrs'') =
     (fst (createFork example_platform ''documents'' ''t1'' ''doc1'' (example_world ''attrs'')),
      Inr ''fork1'') \<and>
   sent (fst (createFork example_platform ''documents'' ''t1'' ''doc1''
                (example_world ''attrs''))) =
     [(''RawOperation/Fork/fork1'', ''doc1'')]"
proof -
  from createFork_announcement [OF example_run] obtain m where
    "sent (fst (createFork example_platform ''documents'' ''t1'' ''doc1''
                  (example_world ''attrs''))) =
       sent (example_world ''attrs'') @ [(stringify example_platform m, ''doc1'')]"
    by blast
  moreover have "sent (fst (createFork example_platform ''documents'' ''t1'' ''doc1''
                (example_world ''attrs''))) = [(''RawOperation/Fork/fork1'', ''doc1'')]"
    by (simp add: model_defs example_defs Fork_def RawOperationType_def)
  ultimately show ?thesis using example_run by blast
qed

text \<open>
  C6. When the parent has no head ref, a successful \<^verbatim>\<open>createFork\<close> leaves every git store
  as it was and issues no \<^verbatim>\<open>upsertRef\<close>, so no ref is created for the fork, and the fork
  starts at 0 and 0: its record has \<^verbatim>\<open>sequenceNumber\<close> 0 and carries the sequence number 0
  and the minimum sequence number 0 in its \<^verbatim>\<open>parent\<close>, which is where line 161 stores the
  latter, and the message that announces it carries both.
\<close>

theorem createFork_without_history:
  assumes "createFork P coll t i w = (w', Inr n)"
    and "tenants w t = Some g" and "refs g i = None"
  shows "tenants w' = tenants w \<and>
    calls w' = calls w @
      [GetTenant t, GetRef i, GetDatabase, InsertOne n t, Update i t, Send i] \<and>
    (\<exists>r. database w' coll (n, t) = Some r \<and> doc_sequenceNumber r = JNum 0 \<and>
         doc_parent r =
           Some \<lparr>parent_documentId = i, parent_minimumSequenceNumber = JNum 0,
                 parent_sequenceNumber = JNum 0, parent_tenantId = t\<rparr>) \<and>
    sent w' = sent w @
      [(stringify P
          \<lparr>msg_clientId = JNull, msg_documentId = i,
           msg_operation =
             \<lparr>op_clientSequenceNumber = - 1,
              op_contents =
                \<lparr>contents_documentId = n, contents_minSequenceNumber = JNum 0,
                 contents_sequenceNumber = JNum 0, contents_tenantId = t\<rparr>,
              op_referenceSequenceNumber = - 1, op_traces = [], op_type = Fork\<rparr>,
           msg_tenantId = t, msg_timestamp = now_timestamp P,
           msg_type = RawOperationType, msg_user = JNull\<rparr>, i)]"
proof -
  note w' = createFork_Inr_no_head [OF assms refl refl]
  show ?thesis
    by (simp add: w' append_fork_def)
qed

text \<open>C6, at the example of a parent without history.\<close>

theorem createFork_without_history_witness:
  "createFork example_platform ''documents'' ''t1'' ''doc1'' example_new_world =
     (fst (createFork example_platform ''documents'' ''t1'' ''doc1'' example_new_world),
      Inr ''fork1'') \<and>
   tenants example_new_world ''t1'' = Some \<lparr>refs = Map.empty, blobs = Map.empty\<rparr> \<and>
   refs \<lparr>refs = Map.empty, blobs = Map.empty\<rparr> ''doc1'' = None \<and>
   tenants (fst (createFork example_platform ''documents'' ''t1'' ''doc1'' example_new_world)) =
     tenants example_new_world \<and>
   (\<exists>r. database
          (fst (createFork example_platform ''documents'' ''t1'' ''doc1'' example_new_world))
          ''documents'' (''fork1'', ''t1'') = Some r \<and>
        doc_sequenceNumber r = JNum 0 \<and>
        doc_parent r =
          Some \<lparr>parent_documentId = ''doc1'', parent_minimumSequenceNumber = JNum 0,
                parent_sequenceNumber = JNum 0, parent_tenantId = ''t1''\<rparr>)"
proof -
  have 1: "tenants example_new_world ''t1'' = Some \<lparr>refs = Map.empty, blobs = Map.empty\<rparr>"
    and 2: "refs \<lparr>refs = Map.empty, blobs = Map.empty\<rparr> ''doc1'' = None"
    by (simp_all add: example_new_world_def)
  from createFork_without_history [OF example_new_run 1 2] example_new_run 1 2
  show ?thesis by blast
qed

text \<open>
  C7. When \<^verbatim>\<open>createFork\<close> resolves to a name, every step before the \<^verbatim>\<open>return\<close> has been
  carried out and none has failed: the requests of the run are, in this order,
  \<^verbatim>\<open>getTenant\<close>, \<^verbatim>\<open>getRef\<close>, with a head \<^verbatim>\<open>getContent\<close> and \<^verbatim>\<open>upsertRef\<close>, then
  \<^verbatim>\<open>getDatabase\<close>, \<^verbatim>\<open>insertOne\<close>, \<^verbatim>\<open>update\<close> and \<^verbatim>\<open>send\<close>; none of them was rejected; with a
  head its attributes were read and parsed and the ref is there; the record of the fork,
  absent before, is in the collection; the parent's record, if there is one, has the
  entry appended; and the message has been given to the producer. Read the other way
  round: when any of these fails, the result is the error, and no name.
\<close>

theorem createFork_returns_last:
  assumes "createFork P coll t i w = (w', Inr n)"
  shows "n = moniker_choose P \<and>
    (\<exists>g. tenants w t = Some g \<and>
       calls w' = calls w @ [GetTenant t, GetRef i] @
         (case refs g i of
            None \<Rightarrow> []
          | Some sha \<Rightarrow> [GetContent sha ''.attributes'', UpsertRef n sha]) @
         [GetDatabase, InsertOne n t, Update i t, Send i] \<and>
       (case refs g i of
          None \<Rightarrow> tenants w' = tenants w
        | Some sha \<Rightarrow>
            (\<exists>c a msn sn. blobs g (sha, ''.attributes'') = Some c \<and>
               parse_base64_json P c = Some a \<and>
               get_property a ''minimumSequenceNumber'' = Inr msn \<and>
               get_property a ''sequenceNumber'' = Inr sn) \<and>
            tenants w' = (tenants w)(t \<mapsto> g\<lparr>refs := (refs g)(n \<mapsto> sha)\<rparr>))) \<and>
    set (drop (length (calls w)) (calls w')) \<inter> rejecting w = {} \<and>
    database w coll (n, t) = None \<and>
    (\<exists>r. database w' coll (n, t) = Some r \<and> doc_documentId r = n) \<and>
    (i \<noteq> n \<longrightarrow>
       database w' coll (i, t) =
         map_option (append_fork \<lparr>fork_documentId = n, fork_tenantId = t\<rparr>)
           (database w coll (i, t))) \<and>
    (\<exists>m. sent w' = sent w @ [(m, i)])"
proof -
  note req = createFork_Inr_requests [OF assms]
  from req(2) obtain g where g: "tenants w t = Some g"
    by blast
  show ?thesis
  proof (cases "refs g i")
    case None
    note w' = createFork_Inr_no_head [OF assms g None refl refl]
    have "calls w' = calls w @
        [GetTenant t, GetRef i, GetDatabase, InsertOne n t, Update i t, Send i]"
      and "tenants w' = tenants w"
      and "\<exists>r. database w' coll (n, t) = Some r \<and> doc_documentId r = n"
      and "i \<noteq> n \<longrightarrow>
        database w' coll (i, t) =
          map_option (append_fork \<lparr>fork_documentId = n, fork_tenantId = t\<rparr>)
            (database w coll (i, t))"
      and "\<exists>m. sent w' = sent w @ [(m, i)]"
      by (simp_all add: w' append_fork_def)
    with g None req show ?thesis by simp
  next
    case (Some sha)
    note att' = createFork_Inr_attributes [OF assms g Some]
    from att'(3) obtain c a msn sn where
      att: "blobs g (sha, ''.attributes'') = Some c" "parse_base64_json P c = Some a"
        "get_property a ''minimumSequenceNumber'' = Inr msn"
        "get_property a ''sequenceNumber'' = Inr sn"
      by blast
    note w' = createFork_Inr_head [OF assms g Some att]
    have "calls w' = calls w @
        [GetTenant t, GetRef i, GetContent sha ''.attributes'', UpsertRef n sha,
         GetDatabase, InsertOne n t, Update i t, Send i]"
      and "tenants w' = (tenants w)(t \<mapsto> g\<lparr>refs := (refs g)(n \<mapsto> sha)\<rparr>)"
      and "\<exists>r. database w' coll (n, t) = Some r \<and> doc_documentId r = n"
      and "i \<noteq> n \<longrightarrow>
        database w' coll (i, t) =
          map_option (append_fork \<lparr>fork_documentId = n, fork_tenantId = t\<rparr>)
            (database w coll (i, t))"
      and "\<exists>m. sent w' = sent w @ [(m, i)]"
      by (simp_all add: w' append_fork_def)
    moreover from att have "\<exists>c a msn sn. blobs g (sha, ''.attributes'') = Some c \<and>
        parse_base64_json P c = Some a \<and>
        get_property a ''minimumSequenceNumber'' = Inr msn \<and>
        get_property a ''sequenceNumber'' = Inr sn"
      by blast
    ultimately show ?thesis using g Some req att'(1,2) by simp
  qed
qed

text \<open>
  C7, at the example: the eight requests of the successful run, and the entry appended
  to the record of the parent \<open>doc1\<close>.
\<close>

theorem createFork_returns_last_witness:
  "createFork example_platform ''documents'' ''t1'' ''doc1'' (example_world ''attrs'') =
     (fst (createFork example_platform ''documents'' ''t1'' ''doc1'' (example_world ''attrs'')),
      Inr ''fork1'') \<and>
   ''doc1'' \<noteq> ''fork1'' \<and>
   ''fork1'' = moniker_choose example_platform \<and>
   calls (fst (createFork example_platform ''documents'' ''t1'' ''doc1''
                 (example_world ''attrs''))) =
     [GetTenant ''t1'', GetRef ''doc1'', GetContent ''sha1'' ''.attributes'',
      UpsertRef ''fork1'' ''sha1'', GetDatabase, InsertOne ''fork1'' ''t1'',
      Update ''doc1'' ''t1'', Send ''doc1''] \<and>
   database (fst (createFork example_platform ''documents'' ''t1'' ''doc1''
                    (example_world ''attrs'')))
     ''documents'' (''doc1'', ''t1'') =
     Some (append_fork \<lparr>fork_documentId = ''fork1'', fork_tenantId = ''t1''\<rparr> example_parent)"
proof -
  note th = createFork_returns_last [OF example_run]
  have 1: "''doc1'' \<noteq> ''fork1''"
    by simp
  have 2: "database (example_world ''attrs'') ''documents'' (''doc1'', ''t1'') =
      Some example_parent"
    by (simp add: example_defs)
  from th have "''fork1'' = moniker_choose example_platform"
    by blast
  moreover from th 1 2
  have "database (fst (createFork example_platform ''documents'' ''t1'' ''doc1''
                    (example_world ''attrs'')))
     ''documents'' (''doc1'', ''t1'') =
     Some (append_fork \<lparr>fork_documentId = ''fork1'', fork_tenantId = ''t1''\<rparr> example_parent)"
    by simp
  moreover have "calls (fst (createFork example_platform ''documents'' ''t1'' ''doc1''
                 (example_world ''attrs''))) =
     [GetTenant ''t1'', GetRef ''doc1'', GetContent ''sha1'' ''.attributes'',
      UpsertRef ''fork1'' ''sha1'', GetDatabase, InsertOne ''fork1'' ''t1'',
      Update ''doc1'' ''t1'', Send ''doc1'']"
    by (simp add: model_defs example_defs)
  ultimately show ?thesis using example_run 1 by blast
qed

text \<open>
  C8, as the code has it. When \<^verbatim>\<open>createFork\<close> succeeds with the name \<open>n\<close> for a parent
  that has a record whose \<^verbatim>\<open>forks\<close> does not name \<open>n\<close> yet, \<^verbatim>\<open>getForks\<close> on the parent
  then returns the former \<^verbatim>\<open>forks\<close> followed by the entry of \<open>n\<close>, which names \<open>n\<close>
  exactly once.
\<close>

theorem getForks_after_createFork:
  assumes "createFork P coll t i w = (w', Inr n)"
    and "database w coll (i, t) = Some d"
    and "\<forall>f \<in> set (case doc_forks d of None \<Rightarrow> [] | Some fs \<Rightarrow> fs). fork_documentId f \<noteq> n"
    and "FindOne i t \<notin> rejecting w"
  shows "\<exists>w'' fs. getForks coll t i w' = (w'', Inr fs) \<and>
    fs = (case doc_forks d of None \<Rightarrow> [] | Some fs \<Rightarrow> fs) @
           [\<lparr>fork_documentId = n, fork_tenantId = t\<rparr>] \<and>
    length (filter (\<lambda>f. fork_documentId f = n) fs) = 1"
proof -
  note req = createFork_Inr_requests [OF assms(1)]
  from req(9) assms(2) have "i \<noteq> n"
    by auto
  from createFork_Inr_parent_forks [OF assms(1) this] assms(2)
  have p: "database w' coll (i, t) =
      Some (append_fork \<lparr>fork_documentId = n, fork_tenantId = t\<rparr> d)"
    by simp
  from req(5,10) assms(4) have "GetDatabase \<notin> rejecting w'" "FindOne i t \<notin> rejecting w'"
    by simp_all
  from getForks_present [OF this p]
  have "getForks coll t i w' =
      (w'\<lparr>calls := calls w' @ [GetDatabase, FindOne i t]\<rparr>,
       Inr ((case doc_forks d of None \<Rightarrow> [] | Some fs \<Rightarrow> fs) @
            [\<lparr>fork_documentId = n, fork_tenantId = t\<rparr>]))"
    by (simp add: append_fork_def)
  moreover from assms(3)
  have "length (filter (\<lambda>f. fork_documentId f = n)
      ((case doc_forks d of None \<Rightarrow> [] | Some fs \<Rightarrow> fs) @
         [\<lparr>fork_documentId = n, fork_tenantId = t\<rparr>])) = 1"
    by (simp add: filter_empty_conv)
  ultimately show ?thesis by blast
qed

text \<open>C8, at the example: after the fork, the parent \<open>doc1\<close> has the one fork \<open>fork1\<close>.\<close>

theorem getForks_after_createFork_witness:
  "createFork example_platform ''documents'' ''t1'' ''doc1'' (example_world ''attrs'') =
     (fst (createFork example_platform ''documents'' ''t1'' ''doc1'' (example_world ''attrs'')),
      Inr ''fork1'') \<and>
   database (example_world ''attrs'') ''documents'' (''doc1'', ''t1'') = Some example_parent \<and>
   doc_forks example_parent = Some [] \<and>
   FindOne ''doc1'' ''t1'' \<notin> rejecting (example_world ''attrs'') \<and>
   snd (getForks ''documents'' ''t1'' ''doc1''
          (fst (createFork example_platform ''documents'' ''t1'' ''doc1''
                  (example_world ''attrs'')))) =
     Inr [\<lparr>fork_documentId = ''fork1'', fork_tenantId = ''t1''\<rparr>]"
proof -
  have 1: "database (example_world ''attrs'') ''documents'' (''doc1'', ''t1'') =
      Some example_parent"
    and 2: "\<forall>f \<in> set (case doc_forks example_parent of None \<Rightarrow> [] | Some fs \<Rightarrow> fs).
      fork_documentId f \<noteq> ''fork1''"
    and 3: "FindOne ''doc1'' ''t1'' \<notin> rejecting (example_world ''attrs'')"
    and 4: "doc_forks example_parent = Some []"
    by (simp_all add: example_defs)
  from getForks_after_createFork [OF example_run 1 2 3]
  have "snd (getForks ''documents'' ''t1'' ''doc1''
          (fst (createFork example_platform ''documents'' ''t1'' ''doc1''
                  (example_world ''attrs'')))) =
     Inr [\<lparr>fork_documentId = ''fork1'', fork_tenantId = ''t1''\<rparr>]"
    by (auto simp: example_parent_def)
  with example_run 1 3 4 show ?thesis by blast
qed

text \<open>
  C8 as the specification states it, for every parent, fails for a parent without a record:
  \<^verbatim>\<open>createFork\<close> succeeds, since \<^verbatim>\<open>update\<close> matches no record and reports no error, and
  \<^verbatim>\<open>getForks\<close> on the parent then returns no sequence.
\<close>

theorem getForks_after_createFork_counterexample:
  "snd (createFork example_platform ''documents'' ''t1'' ''doc1'' example_unrecorded_world) =
     Inr ''fork1'' \<and>
   snd (getForks ''documents'' ''t1'' ''doc1''
          (fst (createFork example_platform ''documents'' ''t1'' ''doc1''
                  example_unrecorded_world))) =
     Inl TypeError"
  by (simp add: model_defs example_defs example_unrecorded_world_def)

text \<open>
  C9. The requests of any run of \<^verbatim>\<open>createFork\<close>, successful or not, are an initial segment
  of this sequence: \<^verbatim>\<open>getTenant\<close>; \<^verbatim>\<open>getRef\<close> of the parent, once; then, only when the store
  holds a head for the parent, \<^verbatim>\<open>getContent\<close> of \<^verbatim>\<open>.attributes\<close> and \<^verbatim>\<open>upsertRef\<close> of the
  generated name, both with the sha of that head; then the four requests to the database
  and the producer. The segment reaches \<^verbatim>\<open>getRef\<close> as soon as the tenant is found, and
  when \<^verbatim>\<open>getRef\<close> is accepted too and the store holds a head, it reaches both
  \<^verbatim>\<open>getContent\<close> and \<^verbatim>\<open>upsertRef\<close>, whatever becomes of the run afterwards. So the head is
  never resolved twice, it is resolved once as soon as the tenant is found, and the read
  and the ref creation are both issued and both use the sha of that one resolution.
\<close>

theorem createFork_single_resolution:
  "\<exists>k. calls (fst (createFork P coll t i w)) = calls w @
     take k
       ([GetTenant t, GetRef i] @
        (case (case tenants w t of None \<Rightarrow> None | Some g \<Rightarrow> refs g i) of
           None \<Rightarrow> []
         | Some sha \<Rightarrow> [GetContent sha ''.attributes'', UpsertRef (moniker_choose P) sha]) @
        [GetDatabase, InsertOne (moniker_choose P) t, Update i t, Send i]) \<and>
     (GetTenant t \<notin> rejecting w \<and> tenants w t \<noteq> None \<longrightarrow> 2 \<le> k) \<and>
     (\<forall>g sha. GetTenant t \<notin> rejecting w \<and> GetRef i \<notin> rejecting w \<and>
        tenants w t = Some g \<and> refs g i = Some sha \<longrightarrow> 4 \<le> k)"
  (is "\<exists>k. ?C = calls w @ take k ([GetTenant t, GetRef i] @ ?mid @ ?last) \<and> _ \<and> _")
proof -
  obtain w1 r1 where 1: "getTenant t w = (w1, r1)"
    by (cases "getTenant t w")
  note c1 = getTenant_calls [OF 1]
  show ?thesis
  proof (cases r1)
    case (Inl e)
    with 1 have "fst (createFork P coll t i w) = w1"
      by (simp add: createFork_def Let_def await_def)
    with c1(1) c1(4) [OF Inl] show ?thesis
      by (intro exI [of _ 1]) auto
  next
    case r1: (Inr gm)
    with c1(3) have gm: "gm = t" and "tenants w t \<noteq> None"
      by simp_all
    then obtain g where g: "tenants w t = Some g"
      by blast
    obtain w2 r2 where 2: "getRef t i w1 = (w2, r2)"
      by (cases "getRef t i w1")
    note c2 = getRef_calls [OF 2]
    show ?thesis
    proof (cases r2)
      case (Inl e)
      with 1 r1 gm 2 have "fst (createFork P coll t i w) = w2"
        by (simp add: createFork_def Let_def await_def)
      moreover from c2(4) [OF Inl] c1(2,5) g have "GetRef i \<in> rejecting w"
        by simp
      ultimately show ?thesis using c1(1) c2(1)
        by (intro exI [of _ 2]) simp
    next
      case r2: (Inr head)
      with c2(3) c1(2) g have head: "head = refs g i"
        by simp
      with g have mid: "?mid =
          (case head of None \<Rightarrow> []
           | Some sha \<Rightarrow> [GetContent sha ''.attributes'', UpsertRef (moniker_choose P) sha])"
        by simp
      obtain w3 r3 where 3: "createFork_sequencing P t (moniker_choose P) head w2 = (w3, r3)"
        by (cases "createFork_sequencing P t (moniker_choose P) head w2")
      from sequencing_calls [OF 3] mid have c3: "calls w3 = calls w2 @ ?mid"
        by simp
      show ?thesis
      proof (cases r3)
        case (Inl e)
        with 1 r1 gm 2 r2 3 have "fst (createFork P coll t i w) = w3"
          by (simp add: createFork_def Let_def await_def)
        with c1(1) c2(1) c3 show ?thesis
          by (intro exI [of _ "2 + length ?mid"]) (simp add: g split: option.splits)
      next
        case r3: (Inr p)
        obtain msn sn where p: "p = (msn, sn)"
          by (cases p)
        obtain w4 r4 where 4: "getDatabase w3 = (w4, r4)"
          by (cases "getDatabase w3")
        note c4 = getDatabase_calls [OF 4]
        show ?thesis
        proof (cases r4)
          case (Inl e)
          with 1 r1 gm 2 r2 3 r3 p 4 have "fst (createFork P coll t i w) = w4"
            by (simp add: createFork_def Let_def await_def)
          with c1(1) c2(1) c3 c4 show ?thesis
            by (intro exI [of _ "3 + length ?mid"]) (simp add: g split: option.splits)
        next
          case r4: (Inr u4)
          obtain w5 r5 where
            5: "createFork_records P coll t i (moniker_choose P) msn sn w4 = (w5, r5)"
            by (cases "createFork_records P coll t i (moniker_choose P) msn sn w4")
          note c5 = records_calls [OF 5]
          show ?thesis
          proof (cases r5)
            case (Inl e)
            with 1 r1 gm 2 r2 3 r3 p 4 r4 5 have "fst (createFork P coll t i w) = w5"
              by (simp add: createFork_def Let_def await_def)
            with c1(1) c2(1) c3 c4 c5 show ?thesis
              by (intro exI [of _ "5 + length ?mid"]) (simp add: g split: option.splits)
          next
            case r5: (Inr u5)
            obtain w6 r6 where
              6: "sendIntegrateStream P t i sn msn (moniker_choose P) w5 = (w6, r6)"
              by (cases "sendIntegrateStream P t i sn msn (moniker_choose P) w5")
            note c6 = sendIntegrateStream_calls [OF 6]
            from 1 r1 gm 2 r2 3 r3 p 4 r4 5 r5 6 have "fst (createFork P coll t i w) = w6"
              by (cases r6) (simp_all add: createFork_def Let_def await_def resolve_def)
            with c1(1) c2(1) c3 c4 c5 c6 show ?thesis
              by (intro exI [of _ "6 + length ?mid"]) (simp add: g split: option.splits)
          qed
        qed
      qed
    qed
  qed
qed

text \<open>
  C9, at the example whose attributes do not parse: the run fails at the parse, after
  the four requests \<^verbatim>\<open>getTenant\<close>, \<^verbatim>\<open>getRef\<close>, \<^verbatim>\<open>getContent\<close> and \<^verbatim>\<open>upsertRef\<close>, the last
  two with the sha \<open>sha1\<close> of the head.
\<close>

theorem createFork_single_resolution_witness:
  "GetTenant ''t1'' \<notin> rejecting (example_world ''bad'') \<and>
   GetRef ''doc1'' \<notin> rejecting (example_world ''bad'') \<and>
   tenants (example_world ''bad'') ''t1'' = Some (example_git ''bad'') \<and>
   refs (example_git ''bad'') ''doc1'' = Some ''sha1'' \<and>
   (\<exists>k. 4 \<le> k \<and> calls (fst (createFork example_platform ''documents'' ''t1'' ''doc1''
                       (example_world ''bad''))) =
      take k
        [GetTenant ''t1'', GetRef ''doc1'', GetContent ''sha1'' ''.attributes'',
         UpsertRef ''fork1'' ''sha1'', GetDatabase, InsertOne ''fork1'' ''t1'',
         Update ''doc1'' ''t1'', Send ''doc1'']) \<and>
   calls (fst (createFork example_platform ''documents'' ''t1'' ''doc1''
                 (example_world ''bad''))) =
     [GetTenant ''t1'', GetRef ''doc1'', GetContent ''sha1'' ''.attributes'',
      UpsertRef ''fork1'' ''sha1'']"
proof -
  have 1: "GetTenant ''t1'' \<notin> rejecting (example_world ''bad'')"
    and 2: "GetRef ''doc1'' \<notin> rejecting (example_world ''bad'')"
    and 3: "tenants (example_world ''bad'') ''t1'' = Some (example_git ''bad'')"
    and 4: "refs (example_git ''bad'') ''doc1'' = Some ''sha1''"
    and 5: "calls (example_world ''bad'') = []"
    and 6: "moniker_choose example_platform = ''fork1''"
    by (simp_all add: example_defs)
  from createFork_single_resolution
    [of example_platform "''documents''" "''t1''" "''doc1''" "example_world ''bad''"]
  obtain k where
    k: "calls (fst (createFork example_platform ''documents'' ''t1'' ''doc1''
                 (example_world ''bad''))) =
      calls (example_world ''bad'') @
      take k
        ([GetTenant ''t1'', GetRef ''doc1''] @
         (case (case tenants (example_world ''bad'') ''t1'' of
                  None \<Rightarrow> None | Some g \<Rightarrow> refs g ''doc1'') of
            None \<Rightarrow> []
          | Some sha \<Rightarrow>
              [GetContent sha ''.attributes'', UpsertRef (moniker_choose example_platform) sha]) @
         [GetDatabase, InsertOne (moniker_choose example_platform) ''t1'',
          Update ''doc1'' ''t1'', Send ''doc1''])"
    and k4: "\<forall>g sha. GetTenant ''t1'' \<notin> rejecting (example_world ''bad'') \<and>
        GetRef ''doc1'' \<notin> rejecting (example_world ''bad'') \<and>
        tenants (example_world ''bad'') ''t1'' = Some g \<and> refs g ''doc1'' = Some sha \<longrightarrow>
        4 \<le> k"
    by blast
  from k4 1 2 3 4 have "4 \<le> k"
    by blast
  moreover from k 3 4 5 6
  have "calls (fst (createFork example_platform ''documents'' ''t1'' ''doc1''
                 (example_world ''bad''))) =
      take k
        [GetTenant ''t1'', GetRef ''doc1'', GetContent ''sha1'' ''.attributes'',
         UpsertRef ''fork1'' ''sha1'', GetDatabase, InsertOne ''fork1'' ''t1'',
         Update ''doc1'' ''t1'', Send ''doc1'']"
    by simp
  moreover
  have "calls (fst (createFork example_platform ''documents'' ''t1'' ''doc1''
                 (example_world ''bad''))) =
     [GetTenant ''t1'', GetRef ''doc1'', GetContent ''sha1'' ''.attributes'',
      UpsertRef ''fork1'' ''sha1'']"
    by (simp add: model_defs example_defs)
  ultimately show ?thesis using 1 2 3 4
    by blast
qed

text \<open>
  C10. A successful \<^verbatim>\<open>createFork\<close> returns the name that \<^verbatim>\<open>moniker.choose()\<close> gave, and
  that name is: the name of every ref the run upserts, and with a head the ref of that
  name is at the head's sha; the \<^verbatim>\<open>documentId\<close> of the record inserted; the \<^verbatim>\<open>documentId\<close>
  of the entry appended to the \<^verbatim>\<open>forks\<close> of the parent's record; and the \<^verbatim>\<open>documentId\<close> of
  the contents of the message sent.
\<close>

theorem createFork_one_name:
  assumes "createFork P coll t i w = (w', Inr n)"
  shows "n = moniker_choose P \<and>
    (\<forall>g sha. tenants w t = Some g \<and> refs g i = Some sha \<longrightarrow>
       UpsertRef n sha \<in> set (calls w') \<and>
       (\<exists>g'. tenants w' t = Some g' \<and> refs g' n = Some sha)) \<and>
    (\<forall>nm sha. UpsertRef nm sha \<in> set (drop (length (calls w)) (calls w')) \<longrightarrow> nm = n) \<and>
    (\<exists>r. database w' coll (n, t) = Some r \<and> doc_documentId r = n) \<and>
    (\<forall>d. i \<noteq> n \<and> database w coll (i, t) = Some d \<longrightarrow>
       (\<exists>d'. database w' coll (i, t) = Some d' \<and>
          doc_forks d' =
            Some ((case doc_forks d of None \<Rightarrow> [] | Some fs \<Rightarrow> fs) @
                  [\<lparr>fork_documentId = n, fork_tenantId = t\<rparr>]))) \<and>
    (\<exists>m. sent w' = sent w @ [(stringify P m, i)] \<and>
       contents_documentId (op_contents (msg_operation m)) = n)"
proof -
  note req = createFork_Inr_requests [OF assms]
  from req(2) obtain g where g: "tenants w t = Some g"
    by blast
  from createFork_Inr_sent [OF assms] obtain msn sn where
    s: "sent w' = sent w @
      [(stringify P
          \<lparr>msg_clientId = JNull, msg_documentId = i,
           msg_operation =
             \<lparr>op_clientSequenceNumber = - 1,
              op_contents =
                \<lparr>contents_documentId = n, contents_minSequenceNumber = msn,
                 contents_sequenceNumber = sn, contents_tenantId = t\<rparr>,
              op_referenceSequenceNumber = - 1, op_traces = [], op_type = Fork\<rparr>,
           msg_tenantId = t, msg_timestamp = now_timestamp P,
           msg_type = RawOperationType, msg_user = JNull\<rparr>, i)]"
    by blast
  have snt: "\<exists>m. sent w' = sent w @ [(stringify P m, i)] \<and>
      contents_documentId (op_contents (msg_operation m)) = n"
    by (rule exI, rule conjI, rule s) simp
  show ?thesis
  proof (cases "refs g i")
    case None
    note w' = createFork_Inr_no_head [OF assms g None refl refl]
    have "\<forall>nm sha. UpsertRef nm sha \<in> set (drop (length (calls w)) (calls w')) \<longrightarrow> nm = n"
      and "\<exists>r. database w' coll (n, t) = Some r \<and> doc_documentId r = n"
      and "\<forall>d. i \<noteq> n \<and> database w coll (i, t) = Some d \<longrightarrow>
       (\<exists>d'. database w' coll (i, t) = Some d' \<and>
          doc_forks d' =
            Some ((case doc_forks d of None \<Rightarrow> [] | Some fs \<Rightarrow> fs) @
                  [\<lparr>fork_documentId = n, fork_tenantId = t\<rparr>]))"
      by (simp_all add: w' append_fork_def)
    with g None req(1) snt show ?thesis by simp
  next
    case (Some sha)
    from createFork_Inr_attributes(3) [OF assms g Some] obtain c a msn sn where
      att: "blobs g (sha, ''.attributes'') = Some c" "parse_base64_json P c = Some a"
        "get_property a ''minimumSequenceNumber'' = Inr msn"
        "get_property a ''sequenceNumber'' = Inr sn"
      by blast
    note w' = createFork_Inr_head [OF assms g Some att]
    have "UpsertRef n sha \<in> set (calls w')"
      and "\<exists>g'. tenants w' t = Some g' \<and> refs g' n = Some sha"
      and "\<forall>nm sha. UpsertRef nm sha \<in> set (drop (length (calls w)) (calls w')) \<longrightarrow> nm = n"
      and "\<exists>r. database w' coll (n, t) = Some r \<and> doc_documentId r = n"
      and "\<forall>d. i \<noteq> n \<and> database w coll (i, t) = Some d \<longrightarrow>
       (\<exists>d'. database w' coll (i, t) = Some d' \<and>
          doc_forks d' =
            Some ((case doc_forks d of None \<Rightarrow> [] | Some fs \<Rightarrow> fs) @
                  [\<lparr>fork_documentId = n, fork_tenantId = t\<rparr>]))"
      by (simp_all add: w' append_fork_def)
    with g Some req(1) snt show ?thesis by simp
  qed
qed

text \<open>
  C10, at the example: the name is \<open>fork1\<close> in the result, the ref, the record and the
  entry of the parent \<open>doc1\<close>.
\<close>

theorem createFork_one_name_witness:
  "createFork example_platform ''documents'' ''t1'' ''doc1'' (example_world ''attrs'') =
     (fst (createFork example_platform ''documents'' ''t1'' ''doc1'' (example_world ''attrs'')),
      Inr ''fork1'') \<and>
   tenants (example_world ''attrs'') ''t1'' = Some (example_git ''attrs'') \<and>
   refs (example_git ''attrs'') ''doc1'' = Some ''sha1'' \<and>
   ''doc1'' \<noteq> ''fork1'' \<and>
   database (example_world ''attrs'') ''documents'' (''doc1'', ''t1'') = Some example_parent \<and>
   ''fork1'' = moniker_choose example_platform \<and>
   UpsertRef ''fork1'' ''sha1'' \<in>
     set (calls (fst (createFork example_platform ''documents'' ''t1'' ''doc1''
                       (example_world ''attrs'')))) \<and>
   (\<exists>g'. tenants (fst (createFork example_platform ''documents'' ''t1'' ''doc1''
                        (example_world ''attrs''))) ''t1'' = Some g' \<and>
         refs g' ''fork1'' = Some ''sha1'') \<and>
   (\<exists>r. database
          (fst (createFork example_platform ''documents'' ''t1'' ''doc1''
                  (example_world ''attrs'')))
          ''documents'' (''fork1'', ''t1'') = Some r \<and>
        doc_documentId r = ''fork1'') \<and>
   (\<exists>d'. database
           (fst (createFork example_platform ''documents'' ''t1'' ''doc1''
                   (example_world ''attrs'')))
           ''documents'' (''doc1'', ''t1'') = Some d' \<and>
         doc_forks d' = Some [\<lparr>fork_documentId = ''fork1'', fork_tenantId = ''t1''\<rparr>])"
proof -
  note th = createFork_one_name [OF example_run]
  have 1: "tenants (example_world ''attrs'') ''t1'' = Some (example_git ''attrs'')"
    and 2: "refs (example_git ''attrs'') ''doc1'' = Some ''sha1''"
    and 3: "''doc1'' \<noteq> ''fork1''"
    and 4: "database (example_world ''attrs'') ''documents'' (''doc1'', ''t1'') =
      Some example_parent"
    and 5: "doc_forks example_parent = Some []"
    by (simp_all add: example_defs)
  from th have a: "''fork1'' = moniker_choose example_platform"
    by blast
  from th 1 2 have b: "UpsertRef ''fork1'' ''sha1'' \<in>
     set (calls (fst (createFork example_platform ''documents'' ''t1'' ''doc1''
                       (example_world ''attrs'')))) \<and>
   (\<exists>g'. tenants (fst (createFork example_platform ''documents'' ''t1'' ''doc1''
                        (example_world ''attrs''))) ''t1'' = Some g' \<and>
         refs g' ''fork1'' = Some ''sha1'')"
    by blast
  from th have c: "\<exists>r. database
          (fst (createFork example_platform ''documents'' ''t1'' ''doc1''
                  (example_world ''attrs'')))
          ''documents'' (''fork1'', ''t1'') = Some r \<and>
        doc_documentId r = ''fork1''"
    by blast
  from th 3 4 have "\<exists>d'. database
           (fst (createFork example_platform ''documents'' ''t1'' ''doc1''
                   (example_world ''attrs'')))
           ''documents'' (''doc1'', ''t1'') = Some d' \<and>
         doc_forks d' =
           Some ((case doc_forks example_parent of None \<Rightarrow> [] | Some fs \<Rightarrow> fs) @
                 [\<lparr>fork_documentId = ''fork1'', fork_tenantId = ''t1''\<rparr>])"
    by blast
  with 5 have d: "\<exists>d'. database
           (fst (createFork example_platform ''documents'' ''t1'' ''doc1''
                   (example_world ''attrs'')))
           ''documents'' (''doc1'', ''t1'') = Some d' \<and>
         doc_forks d' = Some [\<lparr>fork_documentId = ''fork1'', fork_tenantId = ''t1''\<rparr>]"
    by simp
  from example_run 1 2 3 4 a b c d show ?thesis
    by blast
qed

end
